theory Spec2Isabelle
  imports
    Main
    "HOL-Library.Word"
    "HOL-Library.Char_ord"
    "HOL-Library.List_Lexorder"
    "HOL-Library.Product_Lexorder"
    "HOL-Library.Option_ord"
    "HOL-Library.Multiset"
begin

section \<open>Exceptions\<close>

text \<open>
  Every C++ exception the modelled code can raise is a value. \<open>InvalidQueryException\<close>
  carries its message. \<open>lib_exception\<close> stands for an exception thrown inside Boost or the
  standard library's floating-point parsers, which are outside the repository.
  \<open>undefined_behaviour\<close> marks the places where the C++ has no defined result
  (\<open>top()\<close> of an empty \<open>std::stack\<close>, \<open>operator[]\<close> beyond the end of a vector).
\<close>

datatype error =
    InvalidQueryException string
  | invalid_argument string
  | out_of_range
  | bad_cast
  | logic_error string
  | lib_exception
  | undefined_behaviour

text \<open>Sequencing of computations that may throw.\<close>

definition bindE :: "error + 'a \<Rightarrow> ('a \<Rightarrow> error + 'b) \<Rightarrow> error + 'b" where
  "bindE m f = (case m of Inl e \<Rightarrow> Inl e | Inr x \<Rightarrow> f x)"

section \<open>string\_util.cpp\<close>

definition to_lower :: "char \<Rightarrow> char" where
  \<comment> \<open>\<open>std::tolower\<close> in the C locale: the letters A to Z (65 to 90) get bit 5 set, which
      adds 32.\<close>
  "to_lower c =
     (if (65::nat) \<le> of_char c \<and> of_char c \<le> (90::nat)
      then Char (digit0 c) (digit1 c) (digit2 c) (digit3 c) (digit4 c) True (digit6 c) (digit7 c)
      else c)"

definition toLowercase :: "string \<Rightarrow> string" where
  "toLowercase s = map to_lower s"

text \<open>
  \<open>split\<close>: one pass over the characters with the flags \<open>escaped\<close>, \<open>quoted\<close>,
  \<open>quoteChar\<close>, the current segment \<open>os\<close> and the finished segments \<open>ret\<close>.
  \<open>quoteChar = '\0'\<close> means no quote is open.
\<close>

definition NUL :: char where
  "NUL = CHR 0x00"

definition dquote :: char where
  "dquote = CHR 0x22"

definition squote :: char where
  "squote = CHR 0x27"

definition backslash :: char where
  "backslash = CHR 0x5C"

fun split_loop ::
  "char \<Rightarrow> bool \<Rightarrow> bool \<Rightarrow> bool \<Rightarrow> char \<Rightarrow> string \<Rightarrow> string list \<Rightarrow> string \<Rightarrow> string list"
where
  "split_loop delim ignoreQuotes escaped quoted quoteChar os ret [] = ret @ [os]"
| "split_loop delim ignoreQuotes escaped quoted quoteChar os ret (c # cs) =
     (let (escaped', quoted', quoteChar') =
            (if ignoreQuotes then
               (if c = backslash then (\<not> escaped, quoted, quoteChar)
                else
                  (if (c = dquote \<or> c = squote) \<and> \<not> escaped
                      \<and> (c = quoteChar \<or> quoteChar = NUL)
                   then (False, \<not> quoted, if \<not> quoted then c else NUL)
                   else (False, quoted, quoteChar)))
             else (escaped, quoted, quoteChar))
      in if c = delim \<and> (\<not> quoted' \<or> (\<not> escaped' \<and> (c = squote \<or> c = dquote)))
         then split_loop delim ignoreQuotes escaped' quoted' quoteChar' [] (ret @ [os]) cs
         else split_loop delim ignoreQuotes escaped' quoted' quoteChar' (os @ [c]) ret cs)"

definition split :: "string \<Rightarrow> char \<Rightarrow> bool \<Rightarrow> string list" where
  "split s delim ignoreQuotes = split_loop delim ignoreQuotes False False NUL [] [] s"

text \<open>
  \<open>extractQuoted\<close>. \<open>inner_unescaped q escaped cs\<close> is the \<open>for\<close> loop over the
  characters strictly between the first and the last: it is true when an unescaped
  occurrence of the quote character is met.
\<close>

fun inner_unescaped :: "char \<Rightarrow> bool \<Rightarrow> string \<Rightarrow> bool" where
  "inner_unescaped q escaped [] = False"
| "inner_unescaped q escaped (c # cs) =
     (if c = backslash then inner_unescaped q (\<not> escaped) cs
      else if c = q \<and> \<not> escaped then True
      else inner_unescaped q False cs)"

definition extractQuoted :: "string \<Rightarrow> string" where
  "extractQuoted s =
     (if s = [] then s
      else let quoteChar = hd s in
        if (quoteChar \<noteq> dquote \<and> quoteChar \<noteq> squote) \<or> last s \<noteq> quoteChar then s
        else if inner_unescaped quoteChar False (butlast (tl s)) then s
        else butlast (tl s))"

text \<open>
  In \<open>extractQuoted\<close> the test \<open>s.find_last_of(quoteChar) != s.length() - 1\<close> says that the
  last character is not the quote character. For the one-character string \<open>"\""\<close> the loop
  runs over nothing and \<open>substr(1, s.length() - 2)\<close> is \<open>substr(1, npos)\<close>, the empty
  string, which is \<open>butlast (tl s)\<close> too.
\<close>

definition getEscapedChar :: "char \<Rightarrow> error + char" where
  "getEscapedChar c =
     (if c = squote \<or> c = dquote \<or> c = backslash then Inr c
      else Inl (invalid_argument ''Cannot escape character''))"

fun getEscapedString_loop :: "bool \<Rightarrow> string \<Rightarrow> string \<Rightarrow> error + string" where
  "getEscapedString_loop escaped out [] = Inr out"
| "getEscapedString_loop escaped out (c # cs) =
     (if c = backslash \<and> \<not> escaped then getEscapedString_loop True out cs
      else if escaped then
        bindE (getEscapedChar c) (\<lambda>c'. getEscapedString_loop False (out @ [c']) cs)
      else getEscapedString_loop False (out @ [c]) cs)"

definition getEscapedString :: "string \<Rightarrow> error + string" where
  "getEscapedString s = getEscapedString_loop False [] s"

text \<open>
  \<open>std::string::find\<close>: the index of the first occurrence of the needle, \<open>None\<close> for
  \<open>npos\<close>.
\<close>

fun is_prefix :: "string \<Rightarrow> string \<Rightarrow> bool" where
  "is_prefix [] ys = True"
| "is_prefix (x # xs) [] = False"
| "is_prefix (x # xs) (y # ys) = (x = y \<and> is_prefix xs ys)"

fun str_find :: "string \<Rightarrow> string \<Rightarrow> nat option" where
  "str_find [] needle = (if needle = [] then Some 0 else None)"
| "str_find (c # cs) needle =
     (if is_prefix needle (c # cs) then Some 0
      else map_option Suc (str_find cs needle))"

text \<open>
  \<open>replace\<close>: non-overlapping replacement from the left. The loop searches from
  \<open>start\<close>; here the remaining text is the argument. The callers pass a non-empty
  needle.
\<close>

fun replace :: "string \<Rightarrow> string \<Rightarrow> string \<Rightarrow> string" where
  "replace [] toReplace repValue = []"
| "replace (c # cs) toReplace repValue =
     (if toReplace \<noteq> [] \<and> is_prefix toReplace (c # cs)
      then repValue @ replace (drop (length toReplace) (c # cs)) toReplace repValue
      else c # replace cs toReplace repValue)"

section \<open>Library conversions\<close>

text \<open>
  \<open>std::stoi\<close> and \<open>std::stoll\<close> (base 10) are \<open>strtol\<close> and \<open>strtoll\<close>: leading white
  space is skipped, one sign is accepted, then the longest run of decimal digits is read.
  No digit at all is \<open>std::invalid_argument\<close>, a value outside the result type is
  \<open>std::out_of_range\<close>. The second component is the number of characters consumed
  (the \<open>pos\<close> out-parameter).
\<close>

definition is_space :: "char \<Rightarrow> bool" where
  "is_space c = (c = CHR '' '' \<or> ((9::nat) \<le> of_char c \<and> of_char c \<le> (13::nat)))"

definition is_digit :: "char \<Rightarrow> bool" where
  "is_digit c = ((48::nat) \<le> of_char c \<and> of_char c \<le> (57::nat))"

definition digit_val :: "char \<Rightarrow> int" where
  "digit_val c = int (of_char c) - 48"

definition digits_value :: "string \<Rightarrow> int" where
  "digits_value ds = foldl (\<lambda>a c. 10 * a + digit_val c) 0 ds"

definition strtoll_parse :: "string \<Rightarrow> (int \<times> nat) option" where
  "strtoll_parse s =
     (let ws = takeWhile is_space s;
          r = dropWhile is_space s;
          neg = (r \<noteq> [] \<and> hd r = CHR ''-'');
          signed = (r \<noteq> [] \<and> (hd r = CHR ''-'' \<or> hd r = CHR ''+''));
          r2 = (if signed then tl r else r);
          ds = takeWhile is_digit r2
      in if ds = [] then None
         else Some (if neg then - digits_value ds else digits_value ds,
                    length ws + (if signed then 1 else 0) + length ds))"

definition stoi :: "string \<Rightarrow> error + (int \<times> nat)" where
  "stoi s =
     (case strtoll_parse s of
        None \<Rightarrow> Inl (invalid_argument ''stoi'')
      | Some (v, pos) \<Rightarrow>
          if v < - (2 ^ 31) \<or> 2 ^ 31 - 1 < v then Inl out_of_range else Inr (v, pos))"

definition stoll :: "string \<Rightarrow> error + (int \<times> nat)" where
  "stoll s =
     (case strtoll_parse s of
        None \<Rightarrow> Inl (invalid_argument ''stoll'')
      | Some (v, pos) \<Rightarrow>
          if v < - (2 ^ 63) \<or> 2 ^ 63 - 1 < v then Inl out_of_range else Inr (v, pos))"

text \<open>
  The floating-point parsers of the standard library and the date and time types of Boost
  are not part of the repository. They are parameters of the model: a parser returns
  \<open>None\<close> where the library throws. Dates and times are arbitrary linear orders: the
  two parsers of Boost are taken to return proper dates and times only, none of the
  special values (not-a-date-time and the infinities). A floating-point value is a NaN, which
  \<open>std::stod\<close> and \<open>std::stof\<close> return for the text \<open>nan\<close>, or a number; the numbers
  (the finite values, with the two zeros as one, and the two infinities) are an arbitrary
  linear order. \<open>local_day\<close> is
  \<open>boost::gregorian::day_clock::local_day()\<close>; \<open>regex_match s re\<close> is
  \<open>std::regex_match(s, std::regex(re))\<close>.
\<close>

datatype 'f ieee = NaN | Num 'f

record ('f, 'd, 't) extlib =
  stod :: "string \<Rightarrow> 'f ieee option"
  stof :: "string \<Rightarrow> 'f ieee option"
  date_from_string :: "string \<Rightarrow> 'd option"
  time_from_string :: "string \<Rightarrow> 't option"
  date_to_iso_extended_string :: "'d \<Rightarrow> string"
  time_to_iso_extended_string :: "'t \<Rightarrow> string"
  local_day :: "'d"
  regex_match :: "string \<Rightarrow> string \<Rightarrow> bool option"

definition lib_call :: "'a option \<Rightarrow> error + 'a" where
  "lib_call r = (case r of None \<Rightarrow> Inl lib_exception | Some v \<Rightarrow> Inr v)"

text \<open>
  A small instance of the library interface for the concrete evaluations below: the
  floating-point texts are \<open>nan\<close> and the decimal integers, dates and times are not
  parsed at all, and a regular expression matches only itself.
\<close>

definition integer_float :: "string \<Rightarrow> int ieee option" where
  "integer_float s = (if s = ''nan'' then Some NaN else map_option (Num \<circ> fst) (strtoll_parse s))"

definition integer_lib :: "(int, int, int) extlib" where
  "integer_lib =
     \<lparr> stod = integer_float,
       stof = integer_float,
       date_from_string = (\<lambda>s. None),
       time_from_string = (\<lambda>s. None),
       date_to_iso_extended_string = (\<lambda>d. []),
       time_to_iso_extended_string = (\<lambda>t. []),
       local_day = 0,
       regex_match = (\<lambda>s re. Some (s = re)) \<rparr>"

section \<open>ColumnMetadata, Column\<close>

record ColumnMetadata =
  colName :: string
  tableName :: string
  colType :: string
  references :: string
  primaryKey :: bool
  notNull :: bool

definition mkColumnMetadata ::
  "string \<Rightarrow> string \<Rightarrow> string \<Rightarrow> string \<Rightarrow> bool \<Rightarrow> bool \<Rightarrow> ColumnMetadata" where
  \<comment> \<open>The six-argument constructor: a primary key is not null.\<close>
  "mkColumnMetadata cn tn ct refs isPrimaryKey nn =
     \<lparr> colName = cn, tableName = tn, colType = ct, references = refs,
       primaryKey = isPrimaryKey, notNull = (if isPrimaryKey then True else nn) \<rparr>"

definition defaultMetadata :: ColumnMetadata where
  \<comment> \<open>The default constructor: empty strings. The two flags are left uninitialised by the
      C++; they are \<open>False\<close> here and nothing below reads them on such a value.\<close>
  "defaultMetadata =
     \<lparr> colName = [], tableName = [], colType = [], references = [],
       primaryKey = False, notNull = False \<rparr>"

record Column =
  colValue :: string
  metadata :: ColumnMetadata

definition UNDEFINED :: string where
  "UNDEFINED = [CHR 0x7F]"

definition NULL_VALUE :: string where
  \<comment> \<open>\<open>const std::string Column::NULL_VALUE = "\0"\<close>: the constructor from a C string
      stops at the first zero byte, so the constant is the empty string.\<close>
  "NULL_VALUE = []"

definition Column0 :: Column where
  \<comment> \<open>\<open>Column()\<close>\<close>
  "Column0 = \<lparr> colValue = UNDEFINED, metadata = defaultMetadata \<rparr>"

definition Column1 :: "string \<Rightarrow> Column" where
  \<comment> \<open>\<open>Column(colValue)\<close>\<close>
  "Column1 v = \<lparr> colValue = v, metadata = defaultMetadata \<rparr>"

definition Column2 :: "string \<Rightarrow> ColumnMetadata \<Rightarrow> Column" where
  \<comment> \<open>\<open>Column(colValue, metadata)\<close>\<close>
  "Column2 v m = \<lparr> colValue = v, metadata = m \<rparr>"

definition isNull :: "Column \<Rightarrow> bool" where
  "isNull c = (colValue c = NULL_VALUE)"

definition Column_bool :: "Column \<Rightarrow> bool" where
  \<comment> \<open>\<open>operator bool\<close>: the column has been initialised.\<close>
  "Column_bool c = (colValue c \<noteq> UNDEFINED)"

definition Column_int :: "Column \<Rightarrow> error + int" where
  "Column_int c =
     bindE (stoi (colValue c))
       (\<lambda>(result, pos). if pos \<noteq> length (colValue c) then Inl bad_cast else Inr result)"

definition Column_long_long :: "Column \<Rightarrow> error + int" where
  "Column_long_long c =
     bindE (stoll (colValue c))
       (\<lambda>(result, pos). if pos \<noteq> length (colValue c) then Inl bad_cast else Inr result)"

definition Column_double :: "('f, 'd, 't) extlib \<Rightarrow> Column \<Rightarrow> error + 'f ieee" where
  "Column_double lib c = lib_call (stod lib (colValue c))"

definition Column_float :: "('f, 'd, 't) extlib \<Rightarrow> Column \<Rightarrow> error + 'f ieee" where
  "Column_float lib c = lib_call (stof lib (colValue c))"

definition Column_date :: "('f, 'd, 't) extlib \<Rightarrow> Column \<Rightarrow> error + 'd" where
  "Column_date lib c = lib_call (date_from_string lib (colValue c))"

definition Column_ptime :: "('f, 'd, 't) extlib \<Rightarrow> Column \<Rightarrow> error + 't" where
  "Column_ptime lib c =
     lib_call (time_from_string lib
       (date_to_iso_extended_string lib (local_day lib) @ '' '' @ colValue c))"

text \<open>
  The five comparison operators of \<open>Column\<close> have the same body up to the operator
  applied in each branch: the declared type of the left operand selects how both values
  are read, and a type that matches no branch gives \<open>false\<close>. \<open>Column_compare\<close> is
  that body; the operator is its first argument. \<open>find("char") != npos\<close> is
  \<open>str_find dataType ''char'' \<noteq> None\<close>. On two \<open>double\<close> values each of the five
  operators is false as soon as one of them is a NaN.
\<close>

datatype cmp_op = Eq | Lt | Gt | Le | Ge

fun apply_cmp :: "cmp_op \<Rightarrow> 'a::linorder \<Rightarrow> 'a \<Rightarrow> bool" where
  "apply_cmp Eq a b = (a = b)"
| "apply_cmp Lt a b = (a < b)"
| "apply_cmp Gt a b = (a > b)"
| "apply_cmp Le a b = (a \<le> b)"
| "apply_cmp Ge a b = (a \<ge> b)"

fun ieee_cmp :: "cmp_op \<Rightarrow> 'f::linorder ieee \<Rightarrow> 'f ieee \<Rightarrow> bool" where
  "ieee_cmp opr (Num a) (Num b) = apply_cmp opr a b"
| "ieee_cmp opr a b = False"

definition Column_compare ::
  "('f::linorder, 'd::linorder, 't::linorder) extlib \<Rightarrow> cmp_op \<Rightarrow> Column \<Rightarrow> Column
     \<Rightarrow> error + bool" where
  "Column_compare lib opr this col =
     (let dataType = colType (metadata this) in
      if str_find dataType ''char'' \<noteq> None then
        Inr (apply_cmp opr (colValue this) (colValue col))
      else if dataType = ''int'' \<or> dataType = ''bigint'' then
        bindE (Column_long_long this) (\<lambda>a.
        bindE (Column_long_long col) (\<lambda>b. Inr (apply_cmp opr a b)))
      else if dataType = ''float'' \<or> dataType = ''double'' then
        bindE (Column_double lib this) (\<lambda>a.
        bindE (Column_double lib col) (\<lambda>b. Inr (ieee_cmp opr a b)))
      else if dataType = ''date'' then
        bindE (Column_date lib this) (\<lambda>a.
        bindE (Column_date lib col) (\<lambda>b. Inr (apply_cmp opr a b)))
      else if dataType = ''time'' then
        bindE (Column_ptime lib this) (\<lambda>a.
        bindE (Column_ptime lib col) (\<lambda>b. Inr (apply_cmp opr a b)))
      else Inr False)"

definition Column_eq ::
  "('f::linorder, 'd::linorder, 't::linorder) extlib \<Rightarrow> Column \<Rightarrow> Column \<Rightarrow> error + bool" where
  "Column_eq lib this col = Column_compare lib Eq this col"

definition Column_less ::
  "('f::linorder, 'd::linorder, 't::linorder) extlib \<Rightarrow> Column \<Rightarrow> Column \<Rightarrow> error + bool" where
  "Column_less lib this col = Column_compare lib Lt this col"

definition Column_greater ::
  "('f::linorder, 'd::linorder, 't::linorder) extlib \<Rightarrow> Column \<Rightarrow> Column \<Rightarrow> error + bool" where
  "Column_greater lib this col = Column_compare lib Gt this col"

definition Column_less_eq ::
  "('f::linorder, 'd::linorder, 't::linorder) extlib \<Rightarrow> Column \<Rightarrow> Column \<Rightarrow> error + bool" where
  "Column_less_eq lib this col = Column_compare lib Le this col"

definition Column_greater_eq ::
  "('f::linorder, 'd::linorder, 't::linorder) extlib \<Rightarrow> Column \<Rightarrow> Column \<Rightarrow> error + bool" where
  "Column_greater_eq lib this col = Column_compare lib Ge this col"

section \<open>Schema, Row\<close>

text \<open>
  Files are modelled at the level of the tokens that \<open>operator>>\<close> with \<open>std::quoted\<close>
  extracts: a line is the list of its tokens, a file the list of its lines. Writing a
  string with \<open>std::quoted\<close> and reading it back gives the same string, so the quoting
  itself is not modelled. A schema is the vector of its column metadata; its header line
  has five tokens for each column.
\<close>

type_synonym Schema = "ColumnMetadata list"

type_synonym line = "string list"

definition bool_token :: "bool \<Rightarrow> string" where
  \<comment> \<open>\<open>std::boolalpha\<close>\<close>
  "bool_token b = (if b then ''true'' else ''false'')"

definition Schema_toString :: "Schema \<Rightarrow> line" where
  "Schema_toString ms =
     concat (map (\<lambda>m. [colName m, colType m, references m,
                         bool_token (primaryKey m), bool_token (notNull m)]) ms)"

fun rfind_slash_tail :: "string \<Rightarrow> string" where
  \<comment> \<open>\<open>s.substr(s.rfind("/") + 1)\<close>\<close>
  "rfind_slash_tail s = rev (takeWhile (\<lambda>c. c \<noteq> CHR ''/'') (rev s))"

fun parse_metadata :: "string \<Rightarrow> line \<Rightarrow> Schema" where
  "parse_metadata tn (n # t # r # p # nn # rest) =
     \<lparr> colName = n, tableName = tn, colType = t, references = r,
       primaryKey = (p = ''true''), notNull = (nn = ''true'') \<rparr> # parse_metadata tn rest"
| "parse_metadata tn rest = []"

definition Schema_parse :: "string \<Rightarrow> line \<Rightarrow> Schema" where
  \<comment> \<open>\<open>Schema(tableName, s)\<close> on the tokens of the header line \<open>s\<close>. A trailing group of
      fewer than five tokens, which no header written by \<open>toString\<close> has, is dropped.\<close>
  "Schema_parse tn toks =
     parse_metadata (if is_prefix ''http://'' tn then rfind_slash_tail tn else tn) toks"

definition Schema_parse_tab :: "string \<Rightarrow> line \<Rightarrow> Schema" where
  \<comment> \<open>\<open>Schema(tableName, s)\<close> on a header string that ends with a TAB, as
      \<open>extractTableFromURL\<close> writes it: \<open>split\<close> gives one more, empty, part, and the
      metadata read from it keeps the empty strings of the default constructor.\<close>
  "Schema_parse_tab tn toks =
     Schema_parse tn toks
       @ [defaultMetadata
            \<lparr>tableName := (if is_prefix ''http://'' tn then rfind_slash_tail tn else tn)\<rparr>]"

fun Schema_getColumnIndex :: "Schema \<Rightarrow> string \<Rightarrow> nat option" where
  \<comment> \<open>\<open>None\<close> is the result \<open>-1\<close>.\<close>
  "Schema_getColumnIndex [] cn = None"
| "Schema_getColumnIndex (m # ms) cn =
     (if colName m = cn then Some 0 else map_option Suc (Schema_getColumnIndex ms cn))"

fun Schema_getColumnMetadata :: "Schema \<Rightarrow> string \<Rightarrow> error + ColumnMetadata" where
  "Schema_getColumnMetadata [] cn = Inl (invalid_argument (''Column '' @ cn @ '' does not exist''))"
| "Schema_getColumnMetadata (m # ms) cn =
     (if colName m = cn then Inr m else Schema_getColumnMetadata ms cn)"

record Row =
  columns :: "Column list"
  rschema :: Schema

definition Row0 :: Row where
  \<comment> \<open>\<open>Row()\<close>\<close>
  "Row0 = \<lparr> columns = [], rschema = [] \<rparr>"

definition Row1 :: "Schema \<Rightarrow> Row" where
  \<comment> \<open>\<open>Row(schema)\<close>\<close>
  "Row1 sch = \<lparr> columns = [], rschema = sch \<rparr>"

fun read_columns :: "line \<Rightarrow> Schema \<Rightarrow> error + Column list" where
  "read_columns [] ms = Inr []"
| "read_columns (v # vs) [] = Inl undefined_behaviour"
| "read_columns (v # vs) (m # ms) = bindE (read_columns vs ms) (\<lambda>cs. Inr (Column2 v m # cs))"

definition Row_read :: "Row \<Rightarrow> line \<Rightarrow> error + Row" where
  \<comment> \<open>\<open>operator>>(std::istream&, Row&)\<close> on a line that was read: the i-th token gets the
      i-th metadata of the row's schema; a token beyond the schema indexes the metadata
      vector out of range.\<close>
  "Row_read row toks = bindE (read_columns toks (rschema row)) (\<lambda>cs. Inr (row\<lparr>columns := cs\<rparr>))"

definition Row_write :: "Row \<Rightarrow> line" where
  \<comment> \<open>\<open>operator<<(std::ostream&, const Row&)\<close>\<close>
  "Row_write row = map colValue (columns row)"

fun mkRow_columns :: "Schema \<Rightarrow> string list \<Rightarrow> error + Column list" where
  "mkRow_columns [] vs = Inr []"
| "mkRow_columns (m # ms) [] = Inl undefined_behaviour"
| "mkRow_columns (m # ms) (v # vs) =
     bindE (getEscapedString v) (\<lambda>v'.
     bindE (mkRow_columns ms vs) (\<lambda>cs. Inr (Column2 v' m # cs)))"

definition mkRow :: "Schema \<Rightarrow> string list \<Rightarrow> error + Row" where
  \<comment> \<open>\<open>Row(schema, values)\<close>; its \<open>schema\<close> member stays default-constructed.\<close>
  "mkRow sch vs = bindE (mkRow_columns sch vs) (\<lambda>cs. Inr \<lparr> columns = cs, rschema = [] \<rparr>)"

fun getColumn_loop :: "string \<Rightarrow> string \<Rightarrow> Column \<Rightarrow> Column list \<Rightarrow> error + Column" where
  "getColumn_loop cn tn ret [] = Inr ret"
| "getColumn_loop cn tn ret (col # cols) =
     (if colName (metadata col) = cn then
        (if tn = [] \<and> Column_bool ret then
           Inl (InvalidQueryException (''Ambiguous column: '' @ cn))
         else if tn = [] \<or> tableName (metadata col) = tn then getColumn_loop cn tn col cols
         else getColumn_loop cn tn ret cols)
      else getColumn_loop cn tn ret cols)"

definition Row_getColumn :: "Row \<Rightarrow> string \<Rightarrow> error + Column" where
  "Row_getColumn row cn =
     bindE
       (if CHR ''.'' \<in> set cn then
          (case split cn (CHR ''.'') True of
             p0 # p1 # rest \<Rightarrow> Inr (extractQuoted p1, extractQuoted p0)
           | _ \<Rightarrow> Inl undefined_behaviour)
        else Inr (cn, []))
       (\<lambda>(colNameCopy, tn).
          bindE (getColumn_loop colNameCopy tn Column0 (columns row)) (\<lambda>ret.
            if Column_bool ret then Inr ret
            else Inl (invalid_argument (''Column '' @ cn @ '' does not exist''))))"

fun orderAndFilter_loop :: "Row \<Rightarrow> string list \<Rightarrow> error + Column list" where
  "orderAndFilter_loop row [] = Inr []"
| "orderAndFilter_loop row (n # ns) =
     bindE (Row_getColumn row n) (\<lambda>c.
     bindE (orderAndFilter_loop row ns) (\<lambda>cs. Inr (c # cs)))"

definition orderAndFilterColumns :: "Row \<Rightarrow> string list \<Rightarrow> error + Row" where
  "orderAndFilterColumns row colNames =
     (if colNames = [] then Inr row
      else bindE (orderAndFilter_loop row colNames) (\<lambda>cs. Inr (row\<lparr>columns := cs\<rparr>)))"

definition Row_merge :: "Row \<Rightarrow> Row \<Rightarrow> error + Row" where
  \<comment> \<open>\<open>checkInitialization\<close> throws on a row without columns.\<close>
  "Row_merge row otherRow =
     (if columns row = [] then Inl (logic_error ''Row not initialized'')
      else Inr (row\<lparr>columns := columns row @ columns otherRow\<rparr>))"

definition fillBlank :: "Row \<Rightarrow> nat \<Rightarrow> Row" where
  \<comment> \<open>Called with the size of the row's own schema, so every index is in range.\<close>
  "fillBlank row n = row\<lparr>columns := map (Column2 []) (take n (rschema row))\<rparr>"

section \<open>Restriction.cpp\<close>

subsection \<open>Compilation to postfix\<close>

text \<open>
  \<open>parseRestriction\<close>. The operator stack is a list with its top at the head;
  \<open>restrictionStream\<close> is the string written so far. \<open>pop_until_paren\<close> is the inner
  \<open>while\<close> loop with the \<open>pop()\<close> that follows it: \<open>top()\<close> of an empty stack is
  undefined. \<open>restriction.erase(restriction.length() - 1)\<close> on an empty string is
  \<open>erase(npos)\<close>, which throws \<open>std::out_of_range\<close>.
\<close>

fun pop_until_paren :: "string list \<Rightarrow> string \<Rightarrow> error + (string list \<times> string)" where
  "pop_until_paren [] os = Inl undefined_behaviour"
| "pop_until_paren (opr # st) os =
     (if opr \<noteq> ''('' then pop_until_paren st (os @ opr @ '' '') else Inr (st, os))"

fun parse_parts :: "string list \<Rightarrow> string list \<Rightarrow> string \<Rightarrow> error + (string list \<times> string)" where
  "parse_parts [] st os = Inr (st, os)"
| "parse_parts (part # parts) st os =
     (if toLowercase part = ''and'' \<or> toLowercase part = ''or'' \<or> part = ''('' then
        parse_parts parts (toLowercase part # st) os
      else if part = '')'' then
        bindE (pop_until_paren st os) (\<lambda>(st', os'). parse_parts parts st' os')
      else parse_parts parts st (os @ part @ '' ''))"

fun drain_stack :: "string list \<Rightarrow> string \<Rightarrow> string" where
  "drain_stack [] os = os"
| "drain_stack (opr # st) os = drain_stack st (os @ opr @ '' '')"

definition parseRestriction :: "string \<Rightarrow> error + string" where
  "parseRestriction restriction =
     (if restriction = [] then Inr []
      else
        bindE (parse_parts (split restriction (CHR '' '') True) [] []) (\<lambda>(st, os).
          let str = drain_stack st os in
          if str = [] then Inl out_of_range else Inr (butlast str)))"

text \<open>
  The reference algorithm, written from the specification: \<open>and\<close>, \<open>or\<close> and \<open>(\<close> are
  pushed; on \<open>)\<close> the operators above the nearest \<open>(\<close> go to the output and that \<open>(\<close> is
  dropped; every other token goes to the output; at the end the stack is drained. It
  works on token lists and gives a token list.
\<close>

fun postfix_reference :: "string list \<Rightarrow> string list \<Rightarrow> string list" where
  "postfix_reference [] st = st"
| "postfix_reference (t # ts) st =
     (if t = ''and'' \<or> t = ''or'' \<or> t = ''('' then postfix_reference ts (t # st)
      else if t = '')'' then
        takeWhile (\<lambda>x. x \<noteq> ''('') st
          @ postfix_reference ts (drop 1 (dropWhile (\<lambda>x. x \<noteq> ''('') st))
      else t # postfix_reference ts st)"

definition lower_connective :: "string \<Rightarrow> string" where
  \<comment> \<open>A connective in any letter case becomes its lower-case spelling.\<close>
  "lower_connective t =
     (if toLowercase t = ''and'' \<or> toLowercase t = ''or'' then toLowercase t else t)"

fun parens_matched :: "string list \<Rightarrow> nat \<Rightarrow> bool" where
  \<comment> \<open>Every \<open>)\<close> closes an open \<open>(\<close>; the second argument counts the open ones.\<close>
  "parens_matched [] d = True"
| "parens_matched (t # ts) d =
     (if t = ''('' then parens_matched ts (Suc d)
      else if t = '')'' then 0 < d \<and> parens_matched ts (d - 1)
      else parens_matched ts d)"

fun unwords :: "string list \<Rightarrow> string" where
  \<comment> \<open>The tokens separated by single spaces.\<close>
  "unwords [] = []"
| "unwords [t] = t"
| "unwords (t # ts) = t @ '' '' @ unwords ts"

definition emit :: "string list \<Rightarrow> string" where
  \<comment> \<open>What the output stream holds after the tokens were written, each followed by a
      space.\<close>
  "emit toks = concat (map (\<lambda>t. t @ '' '') toks)"

subsection \<open>Evaluation on a row\<close>

datatype rel_op = REq | RLt | RLe | RGt | RGe | RNe

definition parse_rel_op :: "string \<Rightarrow> error + rel_op" where
  "parse_rel_op opr =
     (if opr = ''='' then Inr REq
      else if opr = ''<'' then Inr RLt
      else if opr = ''<='' then Inr RLe
      else if opr = ''>'' then Inr RGt
      else if opr = ''>='' then Inr RGe
      else if opr = ''!='' then Inr RNe
      else Inl (invalid_argument (''Invalid operator: '' @ opr)))"

fun apply_rel :: "rel_op \<Rightarrow> 'a::linorder \<Rightarrow> 'a \<Rightarrow> bool" where
  "apply_rel REq a b = (a = b)"
| "apply_rel RLt a b = (a < b)"
| "apply_rel RLe a b = (a \<le> b)"
| "apply_rel RGt a b = (a > b)"
| "apply_rel RGe a b = (a \<ge> b)"
| "apply_rel RNe a b = (a \<noteq> b)"

definition compareValues :: "'a::linorder \<Rightarrow> string \<Rightarrow> 'a \<Rightarrow> error + bool" where
  "compareValues val1 opr val2 = bindE (parse_rel_op opr) (\<lambda>r. Inr (apply_rel r val1 val2))"

fun ieee_rel :: "rel_op \<Rightarrow> 'f::linorder ieee \<Rightarrow> 'f ieee \<Rightarrow> bool" where
  \<comment> \<open>With a NaN only \<open>!=\<close> holds.\<close>
  "ieee_rel r (Num a) (Num b) = apply_rel r a b"
| "ieee_rel r a b = (r = RNe)"

definition compareValues_double :: "'f::linorder ieee \<Rightarrow> string \<Rightarrow> 'f ieee \<Rightarrow> error + bool" where
  \<comment> \<open>\<open>compareValues<double>\<close>\<close>
  "compareValues_double val1 opr val2 =
     bindE (parse_rel_op opr) (\<lambda>r. Inr (ieee_rel r val1 val2))"

fun escapeRegex :: "string \<Rightarrow> string" where
  "escapeRegex [] = []"
| "escapeRegex (c # cs) =
     (if c \<in> set ''[^$.|?*+(){}'' \<or> c = backslash then backslash # c # escapeRegex cs
      else c # escapeRegex cs)"

definition compareLike :: "('f, 'd, 't) extlib \<Rightarrow> string \<Rightarrow> string \<Rightarrow> error + bool" where
  "compareLike lib val1 val2 =
     lib_call (regex_match lib val1
       (replace (replace (escapeRegex val2) ''%'' ''.*'') ''_'' ''.''))"

definition compareColumnTypes :: "string \<Rightarrow> string \<Rightarrow> bool" where
  "compareColumnTypes col1Type col2Type =
     (if str_find col1Type ''char'' \<noteq> None then str_find col2Type ''char'' \<noteq> None
      else col1Type = col2Type)"

definition is_exception :: "error \<Rightarrow> bool" where
  \<comment> \<open>What \<open>catch (std::exception&)\<close> catches: everything but undefined behaviour.\<close>
  "is_exception e = (e \<noteq> undefined_behaviour)"

definition getColumnValue :: "('f, 'd, 't) extlib \<Rightarrow> string \<Rightarrow> Row \<Rightarrow> error + string" where
  "getColumnValue lib s row =
     (if toLowercase s = ''null'' then Inr NULL_VALUE
      else case Row_getColumn row s of
        Inr c \<Rightarrow> Inr (colValue c)
      | Inl e \<Rightarrow>
          if \<not> is_exception e then Inl e
          else if s = [] then Inl out_of_range
          else if hd s \<noteq> dquote \<and> hd s \<noteq> squote then
            (case stod lib s of
               None \<Rightarrow> Inl (InvalidQueryException (''Invalid value/column name: '' @ s))
             | Some v \<Rightarrow> Inr s)
          else Inr s)"

definition evaluateRestriction ::
  "('f::linorder, 'd::linorder, 't::linorder) extlib \<Rightarrow> string \<Rightarrow> string \<Rightarrow> string \<Rightarrow> Row
     \<Rightarrow> error + bool" where
  "evaluateRestriction lib first opr second row =
     bindE (getColumnValue lib first row) (\<lambda>col1Value.
     bindE (getColumnValue lib second row) (\<lambda>col2Value.
     bindE (if col1Value \<noteq> first \<and> col1Value \<noteq> NULL_VALUE then Row_getColumn row first
            else Inr Column0) (\<lambda>col1.
     bindE (if col2Value \<noteq> second \<and> col2Value \<noteq> NULL_VALUE then Row_getColumn row second
            else Inr Column0) (\<lambda>col2.
     let col1Type = (if Column_bool col1 then colType (metadata col1)
                     else if Column_bool col2 then colType (metadata col2) else []);
         col2Type = (if Column_bool col2 then colType (metadata col2)
                     else if Column_bool col1 then colType (metadata col1) else []);
         typed = (Column_bool col1 \<or> Column_bool col2)
     in
     if typed \<and> \<not> compareColumnTypes col1Type col2Type then
       Inl (invalid_argument (first @ '' and '' @ second @ '' do not have the same types''))
     else
       let compareNumeric = (typed \<and> (col1Type = ''int'' \<or> col1Type = ''bigint''));
           compareFloatingPoint = (typed \<and> \<not> compareNumeric
                                   \<and> (col1Type = ''float'' \<or> col1Type = ''double''));
           compareDates = (typed \<and> \<not> compareNumeric \<and> \<not> compareFloatingPoint
                           \<and> col1Type = ''date'');
           compareTimes = (typed \<and> \<not> compareNumeric \<and> \<not> compareFloatingPoint
                           \<and> \<not> compareDates \<and> col1Type = ''time'');
           nonempty = (col1Value \<noteq> [] \<and> col2Value \<noteq> [])
       in
       if compareNumeric \<and> nonempty then
         bindE (stoll col1Value) (\<lambda>(a, p).
         bindE (stoll col2Value) (\<lambda>(b, q). compareValues a opr b))
       else if compareFloatingPoint \<and> nonempty then
         bindE (lib_call (stod lib col1Value)) (\<lambda>a.
         bindE (lib_call (stod lib col2Value)) (\<lambda>b. compareValues_double a opr b))
       else if compareDates \<and> nonempty then
         bindE (lib_call (date_from_string lib col1Value)) (\<lambda>a.
         bindE (lib_call (date_from_string lib col2Value)) (\<lambda>b. compareValues a opr b))
       else if compareTimes \<and> nonempty then
         bindE (lib_call (time_from_string lib col1Value)) (\<lambda>a.
         bindE (lib_call (time_from_string lib col2Value)) (\<lambda>b. compareValues a opr b))
       else if toLowercase opr \<noteq> ''like'' then
         compareValues (extractQuoted col1Value) opr (extractQuoted col2Value)
       else compareLike lib (extractQuoted col1Value) (extractQuoted col2Value)))))"

text \<open>
  \<open>Restriction::apply\<close> on the compiled string. The loop index moves by three over a
  comparison and by one over a connective, so the loop is a recursion over the remaining
  parts. Reading \<open>parts[i + 1]\<close> or \<open>parts[i + 2]\<close> beyond the end, and \<open>top()\<close> of an empty
  stack, are undefined.
\<close>

fun apply_parts ::
  "('f::linorder, 'd::linorder, 't::linorder) extlib \<Rightarrow> Row \<Rightarrow> string list \<Rightarrow> bool list
     \<Rightarrow> error + bool list" where
  "apply_parts lib row [] st = Inr st"
| "apply_parts lib row (p # ps) st =
     (if p = ''and'' \<or> p = ''or'' then
        (case st of
           res1 # res2 # st' \<Rightarrow>
             apply_parts lib row ps ((if p = ''and'' then res1 \<and> res2 else res1 \<or> res2) # st')
         | _ \<Rightarrow> Inl undefined_behaviour)
      else
        (case ps of
           opr # second # rest \<Rightarrow>
             bindE (evaluateRestriction lib p opr second row) (\<lambda>result.
               apply_parts lib row rest (result # st))
         | _ \<Rightarrow> Inl undefined_behaviour))"

definition Restriction_apply ::
  "('f::linorder, 'd::linorder, 't::linorder) extlib \<Rightarrow> string \<Rightarrow> Row \<Rightarrow> error + bool" where
  "Restriction_apply lib restriction row =
     (if restriction = [] then Inr True
      else
        bindE (apply_parts lib row (split restriction (CHR '' '') True) []) (\<lambda>st.
          case st of [] \<Rightarrow> Inl undefined_behaviour | r # rs \<Rightarrow> Inr r))"

section \<open>Query.cpp\<close>

text \<open>
  \<open>formatQuery\<close>: one pass with the flags \<open>quoteChar\<close>, \<open>escaped\<close>, \<open>quoted\<close>,
  \<open>whitespaceFound\<close> and the output \<open>os\<close>, then the three replacements. A space that
  is dropped leaves all flags as they are (the \<open>continue\<close>).
\<close>

fun formatQuery_loop :: "char \<Rightarrow> bool \<Rightarrow> bool \<Rightarrow> bool \<Rightarrow> string \<Rightarrow> string \<Rightarrow> string" where
  "formatQuery_loop quoteChar escaped quoted whitespaceFound os [] = os"
| "formatQuery_loop quoteChar escaped quoted whitespaceFound os (c # cs) =
     (if c = backslash then
        formatQuery_loop quoteChar (\<not> escaped) quoted (last (os @ [c]) = CHR '' '') (os @ [c]) cs
      else if c = CHR '' '' \<and> whitespaceFound \<and> \<not> quoted then
        formatQuery_loop quoteChar escaped quoted whitespaceFound os cs
      else
        let toggle = ((c = dquote \<or> c = squote) \<and> \<not> escaped
                      \<and> (quoteChar = NUL \<or> quoteChar = c));
            quoted' = (if toggle then \<not> quoted else quoted);
            quoteChar' = (if toggle then (if quoteChar = NUL then c else NUL) else quoteChar);
            os' = (if \<not> quoted' \<and> c \<in> set ''(,);='' then
                     os @ (if whitespaceFound then [] else '' '') @ [c]
                        @ (if c \<noteq> CHR '';'' then '' '' else [])
                   else os @ [c])
        in formatQuery_loop quoteChar' False quoted' (last os' = CHR '' '') os' cs)"

definition formatQuery :: "string \<Rightarrow> string" where
  "formatQuery query =
     replace (replace (replace (formatQuery_loop NUL False False False [] query)
       ''< ='' ''<='') ''> ='' ''>='') ''! ='' ''!=''"

text \<open>
  \<open>isBalanced\<close>. The loop returns \<open>None\<close> where the C++ returns false from inside it
  (a \<open>)\<close> on an empty stack) and the stack otherwise.
\<close>

fun isBalanced_loop :: "char list \<Rightarrow> bool \<Rightarrow> bool \<Rightarrow> string \<Rightarrow> char list option" where
  "isBalanced_loop bracketStack ignore escaped [] = Some bracketStack"
| "isBalanced_loop bracketStack ignore escaped (c # cs) =
     (let ignore' = (if c = dquote \<and> \<not> escaped then \<not> ignore else ignore);
          escaped' = (if c = backslash then \<not> escaped else False)
      in if ignore' then isBalanced_loop bracketStack ignore' escaped' cs
         else if c = CHR ''('' then isBalanced_loop (c # bracketStack) ignore' escaped' cs
         else if c = CHR '')'' then
           (if bracketStack = [] then None
            else isBalanced_loop (tl bracketStack) ignore' escaped' cs)
         else isBalanced_loop bracketStack ignore' escaped' cs)"

definition isBalanced :: "string \<Rightarrow> bool" where
  "isBalanced queryString =
     (case isBalanced_loop [] False False queryString of
        None \<Rightarrow> False
      | Some bracketStack \<Rightarrow>
          bracketStack = []
          \<and> length (split queryString dquote True) mod 2 = 1
          \<and> length (split queryString squote True) mod 2 = 1)"

datatype QueryType = CREATE | DROP | UPDATE | DELETE | INSERT | SELECT

type_synonym PropertyMap = "string \<rightharpoonup> string"

definition npos :: nat where
  \<comment> \<open>\<open>std::string::npos\<close>, the largest \<open>size_t\<close>\<close>
  "npos = 2 ^ 64 - 1"

definition find_semicolon :: "string \<Rightarrow> nat" where
  \<comment> \<open>\<open>queryString.find(";")\<close> as a \<open>size_t\<close>\<close>
  "find_semicolon q = (case str_find q '';'' of None \<Rightarrow> npos | Some k \<Rightarrow> k)"

definition length_minus_one :: "string \<Rightarrow> nat" where
  \<comment> \<open>\<open>queryString.length() - 1\<close> in \<open>size_t\<close> arithmetic: it wraps to \<open>npos\<close> on the
      empty string.\<close>
  "length_minus_one q = (length q + 2 ^ 64 - 1) mod 2 ^ 64"

definition parseDropQuery :: "string \<Rightarrow> error + PropertyMap" where
  "parseDropQuery queryString =
     (let parts = split queryString (CHR '' '') False in
      if length parts \<noteq> 4 then Inl (InvalidQueryException ''Malformed query'')
      else if toLowercase (parts ! 1) \<noteq> ''table'' then
        Inl (InvalidQueryException (''Expected 'table' but got '' @ parts ! 1))
      else Inr [''tableName'' \<mapsto> parts ! 2])"

text \<open>
  \<open>Query::parse\<close>: the two checks, then the dispatch on the first keyword. Of the six
  statement parsers only \<open>parseDropQuery\<close> is needed below; the other five are the
  parameter \<open>others\<close>.
\<close>

definition parse ::
  "(QueryType \<Rightarrow> string \<Rightarrow> error + PropertyMap) \<Rightarrow> string
     \<Rightarrow> error + (QueryType \<times> PropertyMap)" where
  "parse others queryString =
     (if find_semicolon queryString \<noteq> length_minus_one queryString then
        Inl (InvalidQueryException ''Missing semicolon at end'')
      else if \<not> isBalanced queryString then
        Inl (InvalidQueryException ''Unbalanced parentheses or quotes'')
      else if str_find (toLowercase queryString) ''create'' = Some 0 then
        bindE (others CREATE queryString) (\<lambda>props. Inr (CREATE, props))
      else if str_find (toLowercase queryString) ''drop'' = Some 0 then
        bindE (parseDropQuery queryString) (\<lambda>props. Inr (DROP, props))
      else if str_find (toLowercase queryString) ''insert'' = Some 0 then
        bindE (others INSERT queryString) (\<lambda>props. Inr (INSERT, props))
      else if str_find (toLowercase queryString) ''update'' = Some 0 then
        bindE (others UPDATE queryString) (\<lambda>props. Inr (UPDATE, props))
      else if str_find (toLowercase queryString) ''delete'' = Some 0 then
        bindE (others DELETE queryString) (\<lambda>props. Inr (DELETE, props))
      else if str_find (toLowercase queryString) ''select'' = Some 0 then
        bindE (others SELECT queryString) (\<lambda>props. Inr (SELECT, props))
      else Inl (InvalidQueryException ''Invalid query''))"

definition Query_new ::
  "(QueryType \<Rightarrow> string \<Rightarrow> error + PropertyMap) \<Rightarrow> string
     \<Rightarrow> error + (QueryType \<times> PropertyMap)" where
  \<comment> \<open>The constructor \<open>Query(queryString)\<close>: format, then parse.\<close>
  "Query_new others queryString = parse others (formatQuery queryString)"

text \<open>
  The number of occurrences of a quote character that no backslash escapes, as the
  specification counts them.
\<close>

fun count_unescaped :: "char \<Rightarrow> bool \<Rightarrow> string \<Rightarrow> nat" where
  "count_unescaped q escaped [] = 0"
| "count_unescaped q escaped (c # cs) =
     (if c = backslash then count_unescaped q (\<not> escaped) cs
      else (if c = q \<and> \<not> escaped then 1 else 0) + count_unescaped q False cs)"

section \<open>Files and streams\<close>

text \<open>
  The state outside the program is the set of regular files of the table directory: an
  association list from paths to contents, without repeated paths. Its order is the order
  in which \<open>directory_iterator\<close> lists the directory, which the library leaves open.
\<close>

type_synonym content = "line list"

type_synonym filesystem = "(string \<times> content) list"

definition TABLE_DIRECTORY :: string where
  "TABLE_DIRECTORY = ''./tables/''"

definition TABLE_EXTENSION :: string where
  "TABLE_EXTENSION = ''.table''"

definition TEMP_EXTENSION :: string where
  "TEMP_EXTENSION = ''.tmp''"

fun fs_write :: "filesystem \<Rightarrow> string \<Rightarrow> content \<Rightarrow> filesystem" where
  \<comment> \<open>The file at the path gets the content; a new file is listed last.\<close>
  "fs_write [] path ls = [(path, ls)]"
| "fs_write ((p, c) # fs) path ls =
     (if p = path then (p, ls) # fs else (p, c) # fs_write fs path ls)"

definition fs_remove :: "filesystem \<Rightarrow> string \<Rightarrow> filesystem" where
  \<comment> \<open>\<open>std::remove\<close>\<close>
  "fs_remove fs path = filter (\<lambda>(p, c). p \<noteq> path) fs"

definition fs_rename :: "filesystem \<Rightarrow> string \<Rightarrow> string \<Rightarrow> filesystem" where
  \<comment> \<open>\<open>std::rename(old, new)\<close>: nothing happens when \<open>old\<close> does not exist.\<close>
  "fs_rename fs old new =
     (case map_of fs old of
        None \<Rightarrow> fs
      | Some ls \<Rightarrow> fs_write (fs_remove fs old) new ls)"

definition path_stem :: "string \<Rightarrow> string" where
  \<comment> \<open>\<open>path.stem()\<close>: the file name without its last extension.\<close>
  "path_stem path =
     (let name = rfind_slash_tail path in
      if CHR ''.'' \<in> set name then rev (tl (dropWhile (\<lambda>c. c \<noteq> CHR ''.'') (rev name)))
      else name)"

text \<open>
  A stream is read line by line. Its source is a file, looked up by its path at every
  read, an in-memory buffer (\<open>std::stringstream\<close>), or the rest of the response on a
  socket (\<open>tcp::iostream\<close>). \<open>pos\<close> counts the lines before the read position and
  \<open>failbit\<close> is the stream's failure state. A stream on a file that does not exist fails
  on every operation. A socket stream cannot seek: its buffer keeps the default
  \<open>seekoff\<close>, so \<open>tellg\<close> is \<open>-1\<close> and \<open>seekg\<close> sets the failure state. (A stream
  that was opened before \<open>std::rename\<close> replaced its file goes on reading the old file
  in the C++; no property below reads a stream after the rename.)
\<close>

datatype source = FileSrc string | BufferSrc content | SocketSrc content

record stream =
  src :: source
  pos :: nat
  failbit :: bool

definition stream_lines :: "filesystem \<Rightarrow> stream \<Rightarrow> content option" where
  "stream_lines fs st =
     (case src st of
        FileSrc path \<Rightarrow> map_of fs path
      | BufferSrc ls \<Rightarrow> Some ls
      | SocketSrc ls \<Rightarrow> Some ls)"

definition good :: "filesystem \<Rightarrow> stream \<Rightarrow> bool" where
  "good fs st = (stream_lines fs st \<noteq> None \<and> \<not> failbit st)"

definition remaining :: "filesystem \<Rightarrow> stream \<Rightarrow> line list" where
  \<comment> \<open>The lines that successive \<open>getline\<close> calls will read.\<close>
  "remaining fs st =
     (case stream_lines fs st of
        None \<Rightarrow> []
      | Some ls \<Rightarrow> if failbit st then [] else drop (pos st) ls)"

definition getline :: "filesystem \<Rightarrow> stream \<Rightarrow> line option \<times> stream" where
  "getline fs st =
     (case remaining fs st of
        [] \<Rightarrow> (None, st\<lparr>failbit := True\<rparr>)
      | l # ls \<Rightarrow> (Some l, st\<lparr>pos := Suc (pos st)\<rparr>))"

definition seekable :: "stream \<Rightarrow> bool" where
  "seekable st = (case src st of SocketSrc ls \<Rightarrow> False | _ \<Rightarrow> True)"

definition tellg :: "filesystem \<Rightarrow> stream \<Rightarrow> nat option" where
  \<comment> \<open>\<open>None\<close> is the position \<open>-1\<close> of a failed stream and of a socket.\<close>
  "tellg fs st = (if good fs st \<and> seekable st then Some (pos st) else None)"

definition seekg :: "filesystem \<Rightarrow> stream \<Rightarrow> nat option \<Rightarrow> stream" where
  \<comment> \<open>No effect on a failed stream; seeking to \<open>-1\<close>, or on a socket, fails.\<close>
  "seekg fs st p =
     (if \<not> good fs st \<or> \<not> seekable st then st\<lparr>failbit := True\<rparr>
      else case p of None \<Rightarrow> st\<lparr>failbit := True\<rparr> | Some n \<Rightarrow> st\<lparr>pos := n\<rparr>)"

definition clear :: "stream \<Rightarrow> stream" where
  "clear st = st\<lparr>failbit := False\<rparr>"

definition consume :: "filesystem \<Rightarrow> stream \<Rightarrow> nat \<Rightarrow> bool \<Rightarrow> stream" where
  \<comment> \<open>The stream after \<open>n\<close> successful \<open>getline\<close> calls, followed by a failed one when
      \<open>failed\<close>.\<close>
  "consume fs st n failed =
     (if failed then st\<lparr>pos := pos st + n, failbit := True\<rparr> else st\<lparr>pos := pos st + n\<rparr>)"

section \<open>table\_io\_util.cpp\<close>

definition unsigned_int :: "int \<Rightarrow> nat" where
  \<comment> \<open>The conversion of an \<open>int\<close> to \<open>unsigned int\<close>.\<close>
  "unsigned_int v = nat (v mod 2 ^ 32)"

definition formatColumnValue ::
  "('f, 'd, 't) extlib \<Rightarrow> string \<Rightarrow> string \<Rightarrow> error + string" where
  "formatColumnValue lib ct colVal =
     (if ct = ''date'' then
        bindE (lib_call (date_from_string lib colVal)) (\<lambda>d.
          Inr (date_to_iso_extended_string lib d))
      else if ct = ''time'' then
        bindE (Column_ptime lib (Column1 colVal)) (\<lambda>t.
          let iso = time_to_iso_extended_string lib t in
          if length iso < 11 then Inl out_of_range else Inr (take 8 (drop 11 iso)))
      else if str_find ct ''char'' \<noteq> None then
        (let typeParts = split ct (CHR ''('') False in
         bindE (getEscapedString (extractQuoted colVal)) (\<lambda>v.
           case typeParts of
             type # p1 # rest \<Rightarrow>
               bindE (stoi (butlast p1)) (\<lambda>(n, used).
                 let limit = unsigned_int n in
                 if length v > limit then Inr (take limit v)
                 else if length v < limit \<and> type = ''char'' then
                   Inr (v @ replicate (limit - length v) (CHR '' ''))
                 else Inr v)
           | _ \<Rightarrow> Inl undefined_behaviour))
      else Inr colVal)"

text \<open>
  Reading the rows of a file that was opened for a scan: each remaining line is read into
  a row of the given schema, and the named column is compared with a value. The result
  says whether a non-null cell with that value was met.
\<close>

fun scan_for_value :: "Schema \<Rightarrow> string \<Rightarrow> string \<Rightarrow> line list \<Rightarrow> error + bool" where
  "scan_for_value sch cn v [] = Inr False"
| "scan_for_value sch cn v (l # ls) =
     bindE (Row_read (Row1 sch) l) (\<lambda>row.
     bindE (Row_getColumn row cn) (\<lambda>col.
       if \<not> isNull col \<and> colValue col = v then Inr True
       else scan_for_value sch cn v ls))"

definition validateReferencedColumn :: "filesystem \<Rightarrow> ColumnMetadata \<Rightarrow> string \<Rightarrow> error + unit" where
  "validateReferencedColumn fs md colVal =
     (if references md = [] then Inr ()
      else case split (references md) (CHR ''.'') False of
        table # refColName # rest \<Rightarrow>
          (let ls = (case map_of fs (TABLE_DIRECTORY @ table @ TABLE_EXTENSION) of
                       None \<Rightarrow> [] | Some c \<Rightarrow> c);
               sch = Schema_parse (tableName md) (case ls of [] \<Rightarrow> [] | h # t \<Rightarrow> h)
           in bindE (scan_for_value sch refColName colVal (tl ls)) (\<lambda>valid.
                if \<not> valid then
                  Inl (InvalidQueryException
                         (''Value '' @ colVal @ '' does not reference '' @ references md))
                else Inr ()))
      | _ \<Rightarrow> Inl undefined_behaviour)"

fun first_referencing :: "string \<Rightarrow> Schema \<Rightarrow> ColumnMetadata option" where
  \<comment> \<open>The first column of a schema whose \<open>references\<close> is the given column; the loop over
      the metadata stops there (\<open>break\<close>).\<close>
  "first_referencing target [] = None"
| "first_referencing target (m # ms) =
     (if references m = target then Some m else first_referencing target ms)"

definition validateReferencedBy_path ::
  "ColumnMetadata \<Rightarrow> string \<Rightarrow> string \<Rightarrow> content \<Rightarrow> error + unit" where
  \<comment> \<open>\<open>validateReferencedBy(metadata, oldValue, path)\<close> on the content of the file at
      \<open>path\<close>.\<close>
  "validateReferencedBy_path md oldValue path ls =
     (let sch = Schema_parse (path_stem path) (case ls of [] \<Rightarrow> [] | h # t \<Rightarrow> h) in
      case first_referencing (tableName md @ ''.'' @ colName md) sch of
        None \<Rightarrow> Inr ()
      | Some otherMetadata \<Rightarrow>
          bindE (scan_for_value sch (colName otherMetadata) oldValue (tl ls)) (\<lambda>found.
            if found then
              Inl (InvalidQueryException
                     (''Column '' @ tableName otherMetadata @ ''.'' @ colName otherMetadata
                        @ '' references a value being modified or deleted''))
            else Inr ()))"

fun validateReferencedBy_files ::
  "ColumnMetadata \<Rightarrow> string \<Rightarrow> filesystem \<Rightarrow> error + unit" where
  "validateReferencedBy_files md oldValue [] = Inr ()"
| "validateReferencedBy_files md oldValue ((path, ls) # files) =
     bindE (validateReferencedBy_path md oldValue path ls) (\<lambda>u.
       validateReferencedBy_files md oldValue files)"

definition validateReferencedBy :: "filesystem \<Rightarrow> ColumnMetadata \<Rightarrow> string \<Rightarrow> error + unit" where
  \<comment> \<open>\<open>validateReferencedBy(metadata, oldValue)\<close>: every regular file of the directory.\<close>
  "validateReferencedBy fs md oldValue = validateReferencedBy_files md oldValue fs"

section \<open>Table.cpp\<close>

text \<open>
  The members of \<open>Table\<close>. \<open>rowCount\<close> is an \<open>unsigned int\<close>. \<open>restriction\<close> holds
  the compiled string of the \<open>Restriction\<close> member; \<open>columnsFound\<close> is the set of
  fingerprints, kept as a list.
\<close>

record Table =
  schema :: Schema
  hasRows :: bool
  isFromURL :: bool
  distinctT :: bool
  tableNameT :: string
  colFilter :: "string list"
  columnsFound :: "string list"
  restriction :: string
  rowCount :: "32 word"
  tableStream :: stream

definition tablePath :: "Table \<Rightarrow> string" where
  "tablePath t = TABLE_DIRECTORY @ tableNameT t @ TABLE_EXTENSION"

definition tmpFilePath :: "Table \<Rightarrow> string" where
  "tmpFilePath t = TABLE_DIRECTORY @ tableNameT t @ TEMP_EXTENSION"

definition reset :: "filesystem \<Rightarrow> Table \<Rightarrow> Table" where
  "reset fs t = t\<lparr>tableStream := seekg fs (clear (tableStream t)) (Some 0), hasRows := True\<rparr>"

definition countRows :: "filesystem \<Rightarrow> Table \<Rightarrow> Table" where
  \<comment> \<open>The header is skipped at position 0; every further line adds one.\<close>
  "countRows fs t =
     (let st = tableStream t;
          st1 = (if tellg fs st = Some 0 then snd (getline fs st) else st)
      in reset fs (t\<lparr>rowCount := rowCount t + of_nat (length (remaining fs st1))\<rparr>))"

definition Table_new :: "filesystem \<Rightarrow> string \<Rightarrow> Schema \<Rightarrow> Table" where
  \<comment> \<open>\<open>Table(tableName, schema)\<close>\<close>
  "Table_new fs tn sch =
     (let st = \<lparr>src = FileSrc (TABLE_DIRECTORY @ tn @ TABLE_EXTENSION), pos = 0, failbit = False\<rparr>
      in countRows fs
           \<lparr> schema = sch, hasRows = good fs st, isFromURL = False, distinctT = False,
             tableNameT = tn, colFilter = [], columnsFound = [], restriction = [],
             rowCount = 0, tableStream = st \<rparr>)"

definition Table_new_stream :: "filesystem \<Rightarrow> stream \<Rightarrow> string \<Rightarrow> Schema \<Rightarrow> Table" where
  \<comment> \<open>\<open>Table(tableStream, tableName, schema)\<close>; \<open>std::numeric_limits<int>::max()\<close> is
      \<open>2147483647\<close>.\<close>
  "Table_new_stream fs st tn sch =
     (let t = \<lparr> schema = sch, hasRows = good fs st, isFromURL = False, distinctT = False,
                tableNameT = tn, colFilter = [], columnsFound = [], restriction = [],
                rowCount = 0, tableStream = st \<rparr>
      in if is_prefix ''http://'' tn then
           t\<lparr>isFromURL := True, rowCount := 2147483647, tableNameT := rfind_slash_tail tn\<rparr>
         else countRows fs t)"

definition getRowCount :: "Table \<Rightarrow> 32 word" where
  "getRowCount t = rowCount t"

definition setRestrictions :: "Table \<Rightarrow> string \<Rightarrow> error + Table" where
  \<comment> \<open>The \<open>Restriction\<close> constructor compiles the string.\<close>
  "setRestrictions t restrictions =
     bindE (parseRestriction restrictions) (\<lambda>r. Inr (t\<lparr>restriction := r\<rparr>))"

subsection \<open>Validation of a value\<close>

definition discard :: "error + 'a \<Rightarrow> error + unit" where
  "discard r = (case r of Inl e \<Rightarrow> Inl e | Inr v \<Rightarrow> Inr ())"

definition validateDataType ::
  "('f, 'd, 't) extlib \<Rightarrow> string \<Rightarrow> string \<Rightarrow> string \<Rightarrow> error + unit" where
  "validateDataType lib cn dataType v =
     (if v = NULL_VALUE then Inr ()
      else
        let col = Column1 v;
            attempt =
              (if dataType = ''int'' then discard (Column_int col)
               else if dataType = ''long'' then discard (Column_long_long col)
               else if dataType = ''float'' then discard (Column_float lib col)
               else if dataType = ''double'' then discard (Column_double lib col)
               else if dataType = ''date'' then discard (Column_date lib col)
               else if dataType = ''time'' then discard (Column_ptime lib col)
               else if str_find dataType ''char'' \<noteq> None then
                 (if extractQuoted v = v then Inl lib_exception else Inr ())
               else Inr ())
        in case attempt of
             Inl e \<Rightarrow>
               if is_exception e then
                 Inl (InvalidQueryException
                        (''Invalid data type: expected '' @ dataType @ '' for column '' @ cn))
               else Inl e
           | Inr u \<Rightarrow> Inr ())"

definition quoted_at :: "line \<Rightarrow> nat \<Rightarrow> string" where
  \<comment> \<open>The variable \<open>column\<close> of \<open>checkForDuplicateValue\<close> after \<open>index + 1\<close> extractions
      from a line: an extraction at the end of the line leaves it as it is.\<close>
  "quoted_at toks idx =
     (if toks = [] then [] else if idx < length toks then toks ! idx else last toks)"

fun find_duplicate :: "string \<Rightarrow> nat \<Rightarrow> line list \<Rightarrow> nat option" where
  "find_duplicate v idx [] = None"
| "find_duplicate v idx (l # ls) =
     (if quoted_at l idx = v then Some 0 else map_option Suc (find_duplicate v idx ls))"

definition checkForDuplicateValue ::
  "filesystem \<Rightarrow> stream \<Rightarrow> string \<Rightarrow> nat \<Rightarrow> error option \<times> stream" where
  \<comment> \<open>The scan starts at the read position of the stream, whatever line that is.\<close>
  "checkForDuplicateValue fs st v idx =
     (let returnPos = tellg fs st; ls = remaining fs st in
      case find_duplicate v idx ls of
        Some k \<Rightarrow>
          (Some (InvalidQueryException ''Primary key must be unique''), consume fs st (Suc k) False)
      | None \<Rightarrow> (None, seekg fs (clear (consume fs st (length ls) True)) returnPos))"

definition validateColumnValue ::
  "('f, 'd, 't) extlib \<Rightarrow> filesystem \<Rightarrow> stream \<Rightarrow> ColumnMetadata \<Rightarrow> string \<Rightarrow> nat
     \<Rightarrow> error option \<times> stream" where
  "validateColumnValue lib fs st md colVal indexInSchema =
     (case validateDataType lib (colName md) (colType md) colVal of
        Inl e \<Rightarrow> (Some e, st)
      | Inr u \<Rightarrow>
          if notNull md \<and> colVal = NULL_VALUE then
            (Some (InvalidQueryException (colName md @ '' cannot be null'')), st)
          else if colVal = NULL_VALUE then (None, st)
          else
            let (dup, st1) = (if primaryKey md then checkForDuplicateValue fs st colVal indexInSchema
                              else (None, st))
            in case dup of
                 Some e \<Rightarrow> (Some e, st1)
               | None \<Rightarrow>
                   (case validateReferencedColumn fs md colVal of
                      Inl e \<Rightarrow> (Some e, st1)
                    | Inr u \<Rightarrow> (None, st1)))"

subsection \<open>insertRow\<close>

fun insert_columns ::
  "('f, 'd, 't) extlib \<Rightarrow> filesystem \<Rightarrow> stream \<Rightarrow> nat \<Rightarrow> Column list \<Rightarrow> Column list
     \<Rightarrow> error option \<times> stream \<times> Column list" where
  "insert_columns lib fs st idx done [] = (None, st, done)"
| "insert_columns lib fs st idx done (col # cols) =
     (case validateColumnValue lib fs st (metadata col) (colValue col) idx of
        (Some e, st1) \<Rightarrow> (Some e, st1, done @ col # cols)
      | (None, st1) \<Rightarrow>
          (case formatColumnValue lib (colType (metadata col)) (colValue col) of
             Inl e \<Rightarrow> (Some e, st1, done @ col # cols)
           | Inr v \<Rightarrow> insert_columns lib fs st1 (Suc idx) (done @ [Column1 v]) cols))"

definition append_line :: "filesystem \<Rightarrow> stream \<Rightarrow> line \<Rightarrow> filesystem \<times> stream" where
  \<comment> \<open>\<open>seekg(0, end)\<close>, the write of one line, and \<open>seekg(original)\<close>: on a good stream
      the line is added to the source and the position stays; a failed stream stays failed
      and nothing is written.\<close>
  "append_line fs st l =
     (if \<not> good fs st then (fs, st\<lparr>failbit := True\<rparr>)
      else case src st of
        FileSrc path \<Rightarrow> (fs_write fs path (the (map_of fs path) @ [l]), st)
      | BufferSrc ls \<Rightarrow> (fs, st\<lparr>src := BufferSrc (ls @ [l])\<rparr>))"

definition insertRow ::
  "('f, 'd, 't) extlib \<Rightarrow> filesystem \<Rightarrow> Table \<Rightarrow> Row
     \<Rightarrow> error option \<times> Table \<times> filesystem" where
  "insertRow lib fs t row =
     (if isFromURL t then (None, t, fs)
      else case insert_columns lib fs (tableStream t) 0 [] (columns row) of
        (Some e, st1, cols) \<Rightarrow> (Some e, t\<lparr>tableStream := st1\<rparr>, fs)
      | (None, st1, cols) \<Rightarrow>
          (let (fs', st2) = append_line fs st1 (map colValue cols)
           in (None, t\<lparr>tableStream := st2, rowCount := rowCount t + 1\<rparr>, fs')))"

subsection \<open>updateRows and deleteRows\<close>

type_synonym UpdateMap = "(string \<times> string) list"

fun update_entries ::
  "('f, 'd, 't) extlib \<Rightarrow> filesystem \<Rightarrow> Table \<Rightarrow> stream \<Rightarrow> UpdateMap \<Rightarrow> UpdateMap
     \<Rightarrow> error option \<times> stream \<times> UpdateMap" where
  "update_entries lib fs t st done [] = (None, st, done)"
| "update_entries lib fs t st done ((name, v) # entries) =
     (case Schema_getColumnMetadata (schema t) name of
        Inl e \<Rightarrow> (Some e, st, done @ (name, v) # entries)
      | Inr md \<Rightarrow>
          if primaryKey md \<and> restriction t = [] then
            (Some (InvalidQueryException ''Primary key must be unique''), st,
             done @ (name, v) # entries)
          else
            (case validateColumnValue lib fs st md v (the (Schema_getColumnIndex (schema t) name)) of
               (Some e, st1) \<Rightarrow> (Some e, st1, done @ (name, v) # entries)
             | (None, st1) \<Rightarrow>
                 (case formatColumnValue lib (colType md) v of
                    Inl e \<Rightarrow> (Some e, st1, done @ (name, v) # entries)
                  | Inr v' \<Rightarrow> update_entries lib fs t st1 (done @ [(name, v')]) entries)))"

definition append_tmp :: "filesystem \<Rightarrow> string \<Rightarrow> line \<Rightarrow> filesystem" where
  \<comment> \<open>A line written to the open temporary file and flushed.\<close>
  "append_tmp fs path l =
     fs_write fs path ((case map_of fs path of None \<Rightarrow> [] | Some ls \<Rightarrow> ls) @ [l])"

text \<open>
  The cells of one matching row in \<open>writeUpdatedRows\<close>. A replaced cell is written after
  \<open>validateReferencedBy\<close> has looked through the directory for a reference to the old
  value. The cells that were already written are returned with an error: they sit in the
  buffer of the output stream, which its destructor flushes.
\<close>

fun update_cells ::
  "filesystem \<Rightarrow> UpdateMap \<Rightarrow> line \<Rightarrow> Column list \<Rightarrow> error option \<times> line" where
  "update_cells fs columnsToUpdate written [] = (None, written)"
| "update_cells fs columnsToUpdate written (col # cols) =
     (case map_of columnsToUpdate (colName (metadata col)) of
        Some v \<Rightarrow>
          (case validateReferencedBy fs (metadata col) (colValue col) of
             Inl e \<Rightarrow> (Some e, written)
           | Inr u \<Rightarrow> update_cells fs columnsToUpdate (written @ [v]) cols)
      | None \<Rightarrow> update_cells fs columnsToUpdate (written @ [colValue col]) cols)"

fun update_lines ::
  "('f::linorder, 'd::linorder, 't::linorder) extlib \<Rightarrow> Table \<Rightarrow> UpdateMap \<Rightarrow> filesystem
     \<Rightarrow> line list \<Rightarrow> error option \<times> nat \<times> filesystem" where
  "update_lines lib t columnsToUpdate fs [] = (None, 0, fs)"
| "update_lines lib t columnsToUpdate fs (l # ls) =
     (case Row_read (Row1 (schema t)) l of
        Inl e \<Rightarrow> (Some e, 1, fs)
      | Inr row \<Rightarrow>
          (case Restriction_apply lib (restriction t) row of
             Inl e \<Rightarrow> (Some e, 1, fs)
           | Inr matches \<Rightarrow>
               if \<not> matches then
                 (case update_lines lib t columnsToUpdate
                         (append_tmp fs (tmpFilePath t) (Row_write row)) ls of
                    (e, n, fs') \<Rightarrow> (e, Suc n, fs'))
               else
                 (case update_cells fs columnsToUpdate [] (columns row) of
                    (Some e, written) \<Rightarrow>
                      (Some e, 1,
                       if written = [] then fs else append_tmp fs (tmpFilePath t) written)
                  | (None, written) \<Rightarrow>
                      (case update_lines lib t columnsToUpdate
                              (append_tmp fs (tmpFilePath t) written) ls of
                         (e, n, fs') \<Rightarrow> (e, Suc n, fs')))))"

definition writeUpdatedRows ::
  "('f::linorder, 'd::linorder, 't::linorder) extlib \<Rightarrow> filesystem \<Rightarrow> Table \<Rightarrow> UpdateMap
     \<Rightarrow> error option \<times> Table \<times> filesystem" where
  "writeUpdatedRows lib fs t columnsToUpdate =
     (let fs1 = fs_write fs (tmpFilePath t) [Schema_toString (schema t)];
          st = tableStream t
      in case update_lines lib t columnsToUpdate fs1 (remaining fs st) of
           (Some e, n, fs2) \<Rightarrow> (Some e, t\<lparr>tableStream := consume fs st n False\<rparr>, fs2)
         | (None, n, fs2) \<Rightarrow>
             (None, t\<lparr>tableStream := consume fs st n True\<rparr>,
              fs_rename fs2 (tmpFilePath t) (tablePath t)))"

definition updateRows ::
  "('f::linorder, 'd::linorder, 't::linorder) extlib \<Rightarrow> filesystem \<Rightarrow> Table \<Rightarrow> UpdateMap
     \<Rightarrow> error option \<times> Table \<times> filesystem" where
  "updateRows lib fs t columnsToUpdate =
     (if isFromURL t then
        (Some (InvalidQueryException ''Cannot update a remote table''), t, fs)
      else case update_entries lib fs t (tableStream t) [] columnsToUpdate of
        (Some e, st1, m) \<Rightarrow> (Some e, t\<lparr>tableStream := st1\<rparr>, fs)
      | (None, st1, m) \<Rightarrow>
          (let original = tellg fs st1;
               st2 = snd (getline fs (seekg fs st1 (Some 0)))
           in case writeUpdatedRows lib fs (t\<lparr>tableStream := st2\<rparr>) m of
                (Some e, t', fs') \<Rightarrow> (Some e, t', fs')
              | (None, t', fs') \<Rightarrow>
                  (None, t'\<lparr>tableStream := seekg fs' (tableStream t') original\<rparr>, fs')))"

text \<open>
  The matching rows of \<open>writeUndeletedRows\<close>: every cell is checked; an exception of
  the check is caught, the temporary file is removed, and the exception is thrown again.
\<close>

fun delete_cells :: "filesystem \<Rightarrow> Column list \<Rightarrow> error option" where
  "delete_cells fs [] = None"
| "delete_cells fs (col # cols) =
     (case validateReferencedBy fs (metadata col) (colValue col) of
        Inl e \<Rightarrow> Some e
      | Inr u \<Rightarrow> delete_cells fs cols)"

fun delete_lines ::
  "('f::linorder, 'd::linorder, 't::linorder) extlib \<Rightarrow> Table \<Rightarrow> filesystem \<Rightarrow> line list
     \<Rightarrow> error option \<times> nat \<times> filesystem" where
  "delete_lines lib t fs [] = (None, 0, fs)"
| "delete_lines lib t fs (l # ls) =
     (case Row_read (Row1 (schema t)) l of
        Inl e \<Rightarrow> (Some e, 1, fs)
      | Inr row \<Rightarrow>
          (case Restriction_apply lib (restriction t) row of
             Inl e \<Rightarrow> (Some e, 1, fs)
           | Inr matches \<Rightarrow>
               if \<not> matches then
                 (case delete_lines lib t (append_tmp fs (tmpFilePath t) (Row_write row)) ls of
                    (e, n, fs') \<Rightarrow> (e, Suc n, fs'))
               else
                 (case delete_cells fs (columns row) of
                    Some e \<Rightarrow>
                      (Some e, 1, if is_exception e then fs_remove fs (tmpFilePath t) else fs)
                  | None \<Rightarrow>
                      (case delete_lines lib t fs ls of (e, n, fs') \<Rightarrow> (e, Suc n, fs')))))"

definition writeUndeletedRows ::
  "('f::linorder, 'd::linorder, 't::linorder) extlib \<Rightarrow> filesystem \<Rightarrow> Table
     \<Rightarrow> error option \<times> Table \<times> filesystem" where
  "writeUndeletedRows lib fs t =
     (let fs1 = fs_write fs (tmpFilePath t) [Schema_toString (schema t)];
          st = tableStream t
      in case delete_lines lib t fs1 (remaining fs st) of
           (Some e, n, fs2) \<Rightarrow> (Some e, t\<lparr>tableStream := consume fs st n False\<rparr>, fs2)
         | (None, n, fs2) \<Rightarrow>
             (None, t\<lparr>tableStream := consume fs st n True\<rparr>,
              fs_rename fs2 (tmpFilePath t) (tablePath t)))"

definition deleteRows ::
  "('f::linorder, 'd::linorder, 't::linorder) extlib \<Rightarrow> filesystem \<Rightarrow> Table
     \<Rightarrow> error option \<times> Table \<times> filesystem" where
  "deleteRows lib fs t =
     (if isFromURL t then
        (Some (InvalidQueryException ''Cannot delete from a remote table''), t, fs)
      else
        let original = tellg fs (tableStream t);
            st2 = snd (getline fs (seekg fs (tableStream t) (Some 0)))
        in case writeUndeletedRows lib fs (t\<lparr>tableStream := st2\<rparr>) of
             (Some e, t', fs') \<Rightarrow> (Some e, t', fs')
           | (None, t', fs') \<Rightarrow>
               (None,
                t'\<lparr>tableStream := seekg fs' (tableStream t') original,
                   rowCount := rowCount t' - 1\<rparr>,
                fs'))"

subsection \<open>Reading rows\<close>

definition fingerprint :: "Row \<Rightarrow> string" where
  \<comment> \<open>The string \<open>colValues\<close> of the distinct filter.\<close>
  "fingerprint row =
     concat (map (\<lambda>col. colName (metadata col) @ ''='' @ colValue col @ '';'') (columns row))"

text \<open>
  \<open>Table::extractRow\<close> on the lines that the stream still holds. The outer \<open>while\<close>
  loop and the inner \<open>do\<close> loop both go on to the next line, so they are one recursion
  over the lines. The result is the row, the new value of \<open>hasRows\<close>, the number of
  lines read, and the new set of fingerprints. At the end of the stream the row is left
  without columns and \<open>hasRows\<close> becomes false.
\<close>

fun extractRow_lines ::
  "('f::linorder, 'd::linorder, 't::linorder) extlib \<Rightarrow> Table \<Rightarrow> string list \<Rightarrow> line list
     \<Rightarrow> error + (Row \<times> bool \<times> nat \<times> string list)" where
  "extractRow_lines lib t found [] =
     (let row = Row1 (schema t) in
      if \<not> distinctT t then Inr (row, False, 0, found)
      else Inr (row, False, 0,
                if fingerprint row \<in> set found then found else fingerprint row # found))"
| "extractRow_lines lib t found (l # ls) =
     bindE (Row_read (Row1 (schema t)) l) (\<lambda>row.
     bindE (Restriction_apply lib (restriction t) row) (\<lambda>matches.
       if \<not> matches then
         bindE (extractRow_lines lib t found ls) (\<lambda>(r, h, n, f). Inr (r, h, Suc n, f))
       else
         bindE (orderAndFilterColumns row (colFilter t)) (\<lambda>row'.
           if \<not> distinctT t then Inr (row', True, 1, found)
           else if fingerprint row' \<notin> set found then
             Inr (row', True, 1, fingerprint row' # found)
           else
             bindE (extractRow_lines lib t found ls) (\<lambda>(r, h, n, f). Inr (r, h, Suc n, f)))))"

definition Table_pull ::
  "('f::linorder, 'd::linorder, 't::linorder) extlib \<Rightarrow> filesystem \<Rightarrow> Table
     \<Rightarrow> error + (Row \<times> Table)" where
  \<comment> \<open>\<open>Table::operator>>(Row&)\<close>: the header is skipped at position 0.\<close>
  "Table_pull lib fs t =
     (let st = tableStream t;
          st1 = (if tellg fs st = Some 0 then snd (getline fs st) else st)
      in if \<not> hasRows t then Inr (Row1 (schema t), t\<lparr>tableStream := st1\<rparr>)
         else
           bindE (extractRow_lines lib t (columnsFound t) (remaining fs st1))
             (\<lambda>(row, h, n, found).
                Inr (row, t\<lparr>tableStream := consume fs st1 n (\<not> h), hasRows := h,
                              columnsFound := found\<rparr>)))"

text \<open>
  The loop \<open>while (*this >> row) rows.push_back(row)\<close>. It ends because every pull
  that leaves \<open>hasRows\<close> true has read at least one line.
\<close>

lemma extractRow_lines_consumed:
  "extractRow_lines lib t found ls = Inr (row, True, n, found') \<Longrightarrow> 0 < n \<and> n \<le> length ls"
proof (induction ls arbitrary: row n found')
  case Nil
  then show ?case by (simp add: Let_def split: if_splits)
next
  case (Cons l ls)
  show ?case using Cons.prems Cons.IH
    by (auto simp: bindE_def split: sum.splits if_splits prod.splits)
qed

lemma remaining_consume:
  "length (remaining fs (consume fs st n False)) = length (remaining fs st) - n"
  by (simp add: remaining_def consume_def stream_lines_def split: option.splits source.splits)

lemma remaining_getline_tl:
  "remaining fs (snd (getline fs st)) = tl (remaining fs st)"
proof (cases "remaining fs st")
  case Nil
  then show ?thesis
    by (simp add: getline_def remaining_def stream_lines_def split: option.splits source.splits)
next
  case (Cons l ls)
  have "drop (Suc (pos st)) xs = tl (drop (pos st) xs)" for xs :: "line list"
    by (simp add: drop_Suc tl_drop)
  then have "remaining fs (st\<lparr>pos := Suc (pos st)\<rparr>) = tl (remaining fs st)"
    by (simp add: remaining_def stream_lines_def split: option.splits source.splits)
  with Cons show ?thesis by (simp add: getline_def)
qed

lemma Table_pull_decreases:
  assumes "Table_pull lib fs t = Inr (row, t')" and "hasRows t'"
  shows "length (remaining fs (tableStream t')) < length (remaining fs (tableStream t))"
proof -
  define st1 where "st1 = (if tellg fs (tableStream t) = Some 0 then snd (getline fs (tableStream t))
                           else tableStream t)"
  have le: "length (remaining fs st1) \<le> length (remaining fs (tableStream t))"
    by (simp add: st1_def remaining_getline_tl)
  from assms have hr: "hasRows t"
    by (auto simp: Table_pull_def Let_def split: if_splits)
  with assms obtain n found where
    ex: "extractRow_lines lib t (columnsFound t) (remaining fs st1) = Inr (row, True, n, found)"
    and t': "tableStream t' = consume fs st1 n False"
    by (auto simp: Table_pull_def Let_def st1_def bindE_def split: sum.splits prod.splits)
  from extractRow_lines_consumed[OF ex] have "0 < n" "n \<le> length (remaining fs st1)" by auto
  with le t' show ?thesis by (simp add: remaining_consume)
qed

function drain ::
  "('f::linorder, 'd::linorder, 't::linorder) extlib \<Rightarrow> filesystem \<Rightarrow> Table \<Rightarrow> Row list
     \<Rightarrow> error + (Row list \<times> Table)" where
  "drain lib fs t rows =
     (case Table_pull lib fs t of
        Inl e \<Rightarrow> Inl e
      | Inr (row, t') \<Rightarrow> if hasRows t' then drain lib fs t' (rows @ [row]) else Inr (rows, t'))"
  by pat_completeness auto
termination
  by (relation "measure (\<lambda>(lib, fs, t, rows). length (remaining fs (tableStream t)))")
     (auto dest: Table_pull_decreases)

subsection \<open>orderBy\<close>

fun compareRows ::
  "('f::linorder, 'd::linorder, 't::linorder) extlib \<Rightarrow> Row \<Rightarrow> Row \<Rightarrow> string list \<Rightarrow> bool
     \<Rightarrow> error + bool" where
  "compareRows lib row1 row2 [] desc = Inr False"
| "compareRows lib row1 row2 (cn # nameVec) desc =
     bindE (Row_getColumn row1 cn) (\<lambda>col1.
     bindE (Row_getColumn row2 cn) (\<lambda>col2.
     bindE (Column_eq lib col1 col2) (\<lambda>same.
       if same then compareRows lib row1 row2 nameVec desc
       else if desc then Column_greater lib col1 col2
       else Column_less lib col1 col2)))"

text \<open>
  \<open>std::sort\<close> belongs to the standard library. For a comparison that is a strict
  weak ordering the standard fixes its result: a permutation in which no element is less
  than an earlier one. The model is the insertion sort that libstdc++ runs on a sequence
  of at most 16 elements: each element in turn is put in front when it is less than the
  first one, and is otherwise moved backwards over the elements it is less than
  (\<open>__unguarded_linear_insert\<close>, here on the elements before it, nearest first). On a
  longer sequence libstdc++ partitions first, which changes the result only where the
  comparison is not a strict weak ordering or elements are equivalent. An exception
  thrown by a comparison ends the sort.
\<close>

fun unguarded_linear_insert ::
  "('a \<Rightarrow> 'a \<Rightarrow> error + bool) \<Rightarrow> 'a \<Rightarrow> 'a list \<Rightarrow> error + 'a list" where
  "unguarded_linear_insert cmp val [] = Inl undefined_behaviour"
| "unguarded_linear_insert cmp val (nxt # earlier) =
     bindE (cmp val nxt) (\<lambda>less.
       if less then bindE (unguarded_linear_insert cmp val earlier) (\<lambda>r. Inr (nxt # r))
       else Inr (val # nxt # earlier))"

definition insertion_step ::
  "('a \<Rightarrow> 'a \<Rightarrow> error + bool) \<Rightarrow> 'a list \<Rightarrow> 'a \<Rightarrow> error + 'a list" where
  \<comment> \<open>One round of the loop of \<open>__insertion_sort\<close>: \<open>front\<close> is the part before \<open>val\<close>.\<close>
  "insertion_step cmp front val =
     (case front of
        [] \<Rightarrow> Inr [val]
      | first # rest \<Rightarrow>
          bindE (cmp val first) (\<lambda>less.
            if less then Inr (val # front)
            else bindE (unguarded_linear_insert cmp val (rev front)) (\<lambda>r. Inr (rev r))))"

fun insertion_sort ::
  "('a \<Rightarrow> 'a \<Rightarrow> error + bool) \<Rightarrow> 'a list \<Rightarrow> 'a list \<Rightarrow> error + 'a list" where
  "insertion_sort cmp front [] = Inr front"
| "insertion_sort cmp front (val # rest) =
     bindE (insertion_step cmp front val) (\<lambda>front'. insertion_sort cmp front' rest)"

definition std_sort :: "('a \<Rightarrow> 'a \<Rightarrow> error + bool) \<Rightarrow> 'a list \<Rightarrow> error + 'a list" where
  "std_sort cmp xs = insertion_sort cmp [] xs"

definition orderBy ::
  "('f::linorder, 'd::linorder, 't::linorder) extlib \<Rightarrow> filesystem \<Rightarrow> Table \<Rightarrow> string \<Rightarrow> bool
     \<Rightarrow> error + Table" where
  "orderBy lib fs t colNames desc =
     (if colNames = [] then Inr t
      else
        let nameVec = split colNames (CHR '','') False in
        bindE (drain lib fs t []) (\<lambda>(rows, t1).
        bindE (std_sort (\<lambda>row1 row2. compareRows lib row1 row2 nameVec desc) rows) (\<lambda>sorted_rows.
          Inr (t1\<lparr>tableStream :=
                    \<lparr>src = BufferSrc (Schema_toString (schema t1) # map Row_write sorted_rows),
                     pos = 0, failbit = False\<rparr>,
                  hasRows := True\<rparr>))))"

section \<open>JoinedTable.cpp\<close>

text \<open>
  A \<open>JoinedTable\<close> is a \<open>Table\<close> with two parents, \<open>buildTable\<close> and \<open>probeTable\<close>,
  which are shared pointers to tables: each points to a \<open>Table\<close> or to a \<open>JoinedTable\<close>.
  \<open>JoinedMembers\<close> holds the inherited members that the member functions of
  \<open>JoinedTable\<close> use, and the two maps: from probe to build column names, and from
  \<open>column=value\<close> to build rows, both association lists in which a key occurs once. The
  inherited \<open>tableStream\<close> is a null pointer until \<open>orderBy\<close> sets it. A virtual member
  function that is called through a pointer dispatches on what the pointer points to;
  \<open>Table::reset\<close> is not virtual. \<open>clone\<close> copies the table and shares its stream; the
  model copies the value, so the two parents of a join are objects that share no stream,
  as \<open>executeSelectQuery\<close> builds them.
\<close>

record JoinedMembers =
  jschema :: Schema
  jhasRows :: bool
  jdistinct :: bool
  jcolFilter :: "string list"
  jcolumnsFound :: "string list"
  jrestriction :: string
  jtableStream :: "stream option"
  columnMap :: "(string \<times> string) list"
  joinMap :: "(string \<times> Row) list"

datatype TablePtr = BaseTable Table | JoinTable JoinedTable
and JoinedTable =
  JoinedTable (members: JoinedMembers) (buildTable: TablePtr) (probeTable: TablePtr)

definition with_members :: "JoinedTable \<Rightarrow> JoinedMembers \<Rightarrow> JoinedTable" where
  "with_members jt m = JoinedTable m (buildTable jt) (probeTable jt)"

definition with_probe :: "JoinedTable \<Rightarrow> TablePtr \<Rightarrow> JoinedTable" where
  "with_probe jt p = JoinedTable (members jt) (buildTable jt) p"

fun assoc_update :: "('k \<times> 'v) list \<Rightarrow> 'k \<Rightarrow> 'v \<Rightarrow> ('k \<times> 'v) list" where
  \<comment> \<open>\<open>m[k] = v\<close>\<close>
  "assoc_update [] k v = [(k, v)]"
| "assoc_update ((k', v') # m) k v =
     (if k' = k then (k', v) # m else (k', v') # assoc_update m k v)"

definition Schema_hasColumn :: "Schema \<Rightarrow> string \<Rightarrow> error + bool" where
  "Schema_hasColumn sch cn =
     bindE
       (if CHR ''.'' \<in> set cn then
          (case split cn (CHR ''.'') True of
             p0 # p1 # rest \<Rightarrow> Inr (p1, p0)
           | _ \<Rightarrow> Inl undefined_behaviour)
        else Inr (cn, []))
       (\<lambda>(colNameCopy, tn).
          Inr (\<exists>m \<in> set sch. colName m = colNameCopy \<and> (tn = [] \<or> tableName m = tn)))"

subsection \<open>Member functions called through a pointer\<close>

primrec ptr_getRowCount :: "TablePtr \<Rightarrow> 32 word"
  and JoinedTable_getRowCount :: "JoinedTable \<Rightarrow> 32 word" where
  "ptr_getRowCount (BaseTable t) = getRowCount t"
| "ptr_getRowCount (JoinTable jt) = JoinedTable_getRowCount jt"
| "JoinedTable_getRowCount (JoinedTable m b p) = ptr_getRowCount p"

definition ptr_getSchema :: "TablePtr \<Rightarrow> Schema" where
  "ptr_getSchema tp = (case tp of BaseTable t \<Rightarrow> schema t | JoinTable jt \<Rightarrow> jschema (members jt))"

primrec ptr_bool :: "filesystem \<Rightarrow> TablePtr \<Rightarrow> bool"
  and JoinedTable_bool :: "filesystem \<Rightarrow> JoinedTable \<Rightarrow> bool" where
  \<comment> \<open>\<open>operator bool\<close>; a stream converts to \<open>!fail()\<close>.\<close>
  "ptr_bool fs (BaseTable t) = hasRows t"
| "ptr_bool fs (JoinTable jt) = JoinedTable_bool fs jt"
| "JoinedTable_bool fs (JoinedTable m b p) =
     ((case jtableStream m of None \<Rightarrow> False | Some st \<Rightarrow> good fs st)
      \<or> (ptr_bool fs b \<and> ptr_bool fs p))"

definition ptr_reset :: "filesystem \<Rightarrow> TablePtr \<Rightarrow> error + TablePtr" where
  \<comment> \<open>\<open>Table::reset\<close> through a pointer: on a \<open>JoinedTable\<close> it runs on the inherited
      members, and dereferences the stream pointer, which is null before \<open>orderBy\<close>.\<close>
  "ptr_reset fs tp =
     (case tp of
        BaseTable t \<Rightarrow> Inr (BaseTable (reset fs t))
      | JoinTable jt \<Rightarrow>
          (case jtableStream (members jt) of
             None \<Rightarrow> Inl undefined_behaviour
           | Some st \<Rightarrow>
               Inr (JoinTable (with_members jt
                      ((members jt)\<lparr>jtableStream := Some (seekg fs (clear st) (Some 0)),
                                    jhasRows := True\<rparr>)))))"

definition assignBuildAndProbeTables :: "TablePtr \<Rightarrow> TablePtr \<Rightarrow> TablePtr \<times> TablePtr" where
  \<comment> \<open>The result is the pair of the build and the probe table.\<close>
  "assignBuildAndProbeTables table1 table2 =
     (if ptr_getRowCount table1 > ptr_getRowCount table2 then (table2, table1)
      else (table1, table2))"

fun find_match :: "(string \<times> string) list \<Rightarrow> (string \<times> Row) list \<Rightarrow> Column list \<Rightarrow> Row option" where
  \<comment> \<open>The loop of \<open>extractRowJoined\<close>: the build row of the first cell that has one.\<close>
  "find_match cm jm [] = None"
| "find_match cm jm (col # cols) =
     (let cn = (if map_of cm (colName (metadata col)) = None
                then tableName (metadata col) @ ''.'' @ colName (metadata col)
                else colName (metadata col))
      in case map_of cm cn of
           None \<Rightarrow> find_match cm jm cols
         | Some buildCol \<Rightarrow>
             (case map_of jm (buildCol @ ''='' @ colValue col) of
                None \<Rightarrow> find_match cm jm cols
              | Some r \<Rightarrow> Some r))"

definition extractRowJoined :: "JoinedTable \<Rightarrow> Row \<Rightarrow> error + Row" where
  "extractRowJoined jt row =
     (case find_match (columnMap (members jt)) (joinMap (members jt)) (columns row) of
        Some r \<Rightarrow> Row_merge row r
      | None \<Rightarrow>
          Row_merge row
            (fillBlank (Row1 (ptr_getSchema (buildTable jt)))
               (length (ptr_getSchema (buildTable jt)))))"

subsection \<open>Pulling rows\<close>

text \<open>
  The loops of \<open>JoinedTable::extractRow\<close> and \<open>JoinedTable::operator>>\<close> can run forever:
  a table that reads from the stream of \<open>orderBy\<close> evaluates its restriction again after
  every read, also after the stream has ended, and the distinct filter calls
  \<open>operator>>\<close> again on a row it has seen. The functions below take fuel, which bounds
  the depth of calls and the number of rounds; the result \<open>None\<close> says that the fuel
  did not suffice.
\<close>

definition bindF ::
  "(error + 'a) option \<Rightarrow> ('a \<Rightarrow> (error + 'b) option) \<Rightarrow> (error + 'b) option" where
  "bindF r f = (case r of None \<Rightarrow> None | Some (Inl e) \<Rightarrow> Some (Inl e) | Some (Inr x) \<Rightarrow> f x)"

text \<open>
  One round of the \<open>do\<close> loop of \<open>JoinedTable::extractRow\<close>, with the virtual
  \<open>operator>>\<close> of the parents as the argument \<open>pull\<close>. The second component of the
  result is false when the probe side is exhausted (the \<open>break\<close>), and true when the
  loop goes on to test the restriction. A read from the own stream that fails leaves the
  row without columns.
\<close>

definition extractRow_body ::
  "(TablePtr \<Rightarrow> (error + Row \<times> TablePtr) option) \<Rightarrow> filesystem \<Rightarrow> JoinedTable
     \<Rightarrow> (error + Row \<times> bool \<times> JoinedTable) option" where
  "extractRow_body pull fs jt =
     (case jtableStream (members jt) of
        Some st \<Rightarrow>
          (let (l, st') = getline fs st in
           bindF (Some (Row_read (Row1 (jschema (members jt)))
                          (case l of None \<Rightarrow> [] | Some toks \<Rightarrow> toks)))
             (\<lambda>row. Some (Inr (row, True,
                                with_members jt ((members jt)\<lparr>jtableStream := Some st'\<rparr>)))))
      | None \<Rightarrow>
          bindF (pull (probeTable jt)) (\<lambda>(row, p1).
            if \<not> ptr_bool fs p1 then Some (Inr (row, False, with_probe jt p1))
            else if joinMap (members jt) = [] then
              bindF (pull (buildTable jt)) (\<lambda>(row2, b1).
              bindF (if \<not> ptr_bool fs b1 then bindF (Some (ptr_reset fs b1)) pull
                     else Some (Inr (row2, b1))) (\<lambda>(row2', b2).
              bindF (Some (Row_merge row row2')) (\<lambda>merged.
                Some (Inr (merged, True, JoinedTable (members jt) b2 p1)))))
            else
              bindF (Some (extractRowJoined jt row)) (\<lambda>merged.
                Some (Inr (merged, True, with_probe jt p1)))))"

fun ptr_pull ::
  "nat \<Rightarrow> ('f::linorder, 'd::linorder, 't::linorder) extlib \<Rightarrow> filesystem \<Rightarrow> TablePtr
     \<Rightarrow> (error + Row \<times> TablePtr) option"
  and JoinedTable_extractRow ::
  "nat \<Rightarrow> ('f::linorder, 'd::linorder, 't::linorder) extlib \<Rightarrow> filesystem \<Rightarrow> JoinedTable
     \<Rightarrow> (error + Row \<times> JoinedTable) option"
  and JoinedTable_pull ::
  "nat \<Rightarrow> ('f::linorder, 'd::linorder, 't::linorder) extlib \<Rightarrow> filesystem \<Rightarrow> JoinedTable
     \<Rightarrow> (error + Row \<times> JoinedTable) option"
  where
  "ptr_pull 0 lib fs tp = None"
| "ptr_pull (Suc n) lib fs (BaseTable t) =
     Some (bindE (Table_pull lib fs t) (\<lambda>(row, t'). Inr (row, BaseTable t')))"
| "ptr_pull (Suc n) lib fs (JoinTable jt) =
     bindF (JoinedTable_pull n lib fs jt) (\<lambda>(row, jt'). Some (Inr (row, JoinTable jt')))"
| "JoinedTable_extractRow 0 lib fs jt = None"
| "JoinedTable_extractRow (Suc n) lib fs jt =
     bindF (extractRow_body (\<lambda>tp. ptr_pull n lib fs tp) fs jt) (\<lambda>(row, again, jt').
       if \<not> again then Some (Inr (row, jt'))
       else
         bindF (Some (Restriction_apply lib (jrestriction (members jt')) row)) (\<lambda>matches.
           if matches then Some (Inr (row, jt')) else JoinedTable_extractRow n lib fs jt'))"
| "JoinedTable_pull 0 lib fs jt = None"
| "JoinedTable_pull (Suc n) lib fs jt =
     \<comment> \<open>\<open>JoinedTable::operator>>\<close>\<close>
     bindF (JoinedTable_extractRow n lib fs jt) (\<lambda>(row, jt1).
     bindF (Some (if columns row \<noteq> [] then orderAndFilterColumns row (jcolFilter (members jt1))
                  else Inr row)) (\<lambda>row'.
       if \<not> jdistinct (members jt1) then Some (Inr (row', jt1))
       else if fingerprint row' \<notin> set (jcolumnsFound (members jt1)) then
         Some (Inr (row', with_members jt1
                 ((members jt1)\<lparr>jcolumnsFound := fingerprint row' # jcolumnsFound (members jt1)\<rparr>)))
       else JoinedTable_pull n lib fs jt1))"

fun JoinedTable_drain ::
  "nat \<Rightarrow> ('f::linorder, 'd::linorder, 't::linorder) extlib \<Rightarrow> filesystem \<Rightarrow> JoinedTable
     \<Rightarrow> Row list \<Rightarrow> (error + Row list \<times> JoinedTable) option" where
  \<comment> \<open>The loop \<open>while (*this >> row) rows.push_back(row)\<close>.\<close>
  "JoinedTable_drain 0 lib fs jt rows = None"
| "JoinedTable_drain (Suc n) lib fs jt rows =
     bindF (JoinedTable_pull n lib fs jt) (\<lambda>(row, jt').
       if JoinedTable_bool fs jt' then JoinedTable_drain n lib fs jt' (rows @ [row])
       else Some (Inr (rows, jt')))"

fun JoinedTable_pulls ::
  "nat \<Rightarrow> ('f::linorder, 'd::linorder, 't::linorder) extlib \<Rightarrow> filesystem \<Rightarrow> nat \<Rightarrow> JoinedTable
     \<Rightarrow> (error + Row list \<times> JoinedTable) option" where
  \<comment> \<open>The rows of the first \<open>k\<close> calls of \<open>operator>>\<close>, each call with the fuel \<open>n\<close>.\<close>
  "JoinedTable_pulls n lib fs 0 jt = Some (Inr ([], jt))"
| "JoinedTable_pulls n lib fs (Suc k) jt =
     bindF (JoinedTable_pull n lib fs jt) (\<lambda>(row, jt').
     bindF (JoinedTable_pulls n lib fs k jt') (\<lambda>(rows, jt'').
       Some (Inr (row # rows, jt''))))"

subsection \<open>The constructor\<close>

fun joinMap_row :: "(string \<times> Row) list \<Rightarrow> Row \<Rightarrow> string list \<Rightarrow> error + (string \<times> Row) list" where
  \<comment> \<open>The inner loop of \<open>buildJoinMap\<close>; only \<open>std::invalid_argument\<close> is caught.\<close>
  "joinMap_row jm row [] = Inr jm"
| "joinMap_row jm row (name # names) =
     (case Row_getColumn row name of
        Inr c \<Rightarrow> joinMap_row (assoc_update jm (name @ ''='' @ colValue c) row) row names
      | Inl (invalid_argument msg) \<Rightarrow> joinMap_row jm row names
      | Inl e \<Rightarrow> Inl e)"

fun buildJoinMap_loop ::
  "nat \<Rightarrow> ('f::linorder, 'd::linorder, 't::linorder) extlib \<Rightarrow> filesystem \<Rightarrow> TablePtr
     \<Rightarrow> string list \<Rightarrow> (string \<times> Row) list
     \<Rightarrow> (error + (string \<times> Row) list \<times> TablePtr) option" where
  \<comment> \<open>The loop \<open>while (*buildTable >> row)\<close> of \<open>buildJoinMap\<close>.\<close>
  "buildJoinMap_loop 0 lib fs bt colNames jm = None"
| "buildJoinMap_loop (Suc n) lib fs bt colNames jm =
     bindF (ptr_pull n lib fs bt) (\<lambda>(row, bt').
       if \<not> ptr_bool fs bt' then Some (Inr (jm, bt'))
       else
         bindF (Some (joinMap_row jm row colNames)) (\<lambda>jm'.
           buildJoinMap_loop n lib fs bt' colNames jm'))"

definition buildJoinMap ::
  "nat \<Rightarrow> ('f::linorder, 'd::linorder, 't::linorder) extlib \<Rightarrow> filesystem \<Rightarrow> JoinedTable
     \<Rightarrow> string list \<Rightarrow> (error + JoinedTable) option" where
  "buildJoinMap n lib fs jt colNames =
     bindF (Some (ptr_reset fs (buildTable jt))) (\<lambda>b0.
     bindF (buildJoinMap_loop n lib fs b0 colNames (joinMap (members jt))) (\<lambda>(jm, b1).
     bindF (Some (ptr_reset fs b1)) (\<lambda>b2.
       Some (Inr (JoinedTable ((members jt)\<lparr>joinMap := jm\<rparr>) b2 (probeTable jt))))))"

text \<open>
  \<open>parseJoinCondition\<close>: the index moves by three and the loop breaks on the last
  triple. Reading \<open>parts[i + 1]\<close> or \<open>parts[i + 2]\<close> beyond the end is undefined.
\<close>

fun parseJoin_parts ::
  "Schema \<Rightarrow> string list \<Rightarrow> (string \<times> string) list \<Rightarrow> string list
     \<Rightarrow> error + ((string \<times> string) list \<times> string list)" where
  "parseJoin_parts bsch (p0 # p1 # ps) cm buildTableColumns =
     (if p1 \<noteq> ''='' then
        Inl (InvalidQueryException ''Joins currently only support the = operator'')
      else
        bindE (Schema_hasColumn bsch p0) (\<lambda>inBuild.
          case ps of
            [] \<Rightarrow> Inl undefined_behaviour
          | p2 # rest \<Rightarrow>
              (let cm' = (if inBuild then assoc_update cm p2 p0 else assoc_update cm p0 p2);
                   cols' = buildTableColumns @ [if inBuild then p0 else p2]
               in if rest = [] then Inr (cm', cols')
                  else parseJoin_parts bsch rest cm' cols')))"
| "parseJoin_parts bsch [p0] cm buildTableColumns = Inl undefined_behaviour"
| "parseJoin_parts bsch [] cm buildTableColumns = Inr (cm, buildTableColumns)"

definition default_members :: JoinedMembers where
  \<comment> \<open>The inherited members as the default constructor \<open>Table()\<close> leaves them, and the
      two maps empty.\<close>
  "default_members =
     \<lparr> jschema = [], jhasRows = True, jdistinct = False, jcolFilter = [], jcolumnsFound = [],
       jrestriction = [], jtableStream = None, columnMap = [], joinMap = [] \<rparr>"

definition JoinedTable_new ::
  "nat \<Rightarrow> ('f::linorder, 'd::linorder, 't::linorder) extlib \<Rightarrow> filesystem \<Rightarrow> TablePtr \<Rightarrow> TablePtr
     \<Rightarrow> string \<Rightarrow> (error + JoinedTable) option" where
  \<comment> \<open>\<open>JoinedTable(table1, table2, joinCondition)\<close>; \<open>Schema::merge\<close> appends the
      metadata. The fuel is for the loop of \<open>buildJoinMap\<close>.\<close>
  "JoinedTable_new n lib fs table1 table2 joinCondition =
     (let (build, probe) = assignBuildAndProbeTables table1 table2;
          jt = JoinedTable
                 (default_members\<lparr>jschema := ptr_getSchema probe @ ptr_getSchema build\<rparr>)
                 build probe
      in if joinCondition = [] then Some (Inr jt)
         else
           bindF (Some (parseJoin_parts (ptr_getSchema build)
                          (split joinCondition (CHR '' '') True) [] []))
             (\<lambda>(cm, cols).
                buildJoinMap n lib fs (with_members jt ((members jt)\<lparr>columnMap := cm\<rparr>)) cols))"

definition JoinedTable_setRestrictions :: "JoinedTable \<Rightarrow> string \<Rightarrow> error + JoinedTable" where
  \<comment> \<open>The inherited \<open>Table::setRestrictions\<close>.\<close>
  "JoinedTable_setRestrictions jt restrictions =
     bindE (parseRestriction restrictions) (\<lambda>r.
       Inr (with_members jt ((members jt)\<lparr>jrestriction := r\<rparr>)))"

subsection \<open>orderBy\<close>

definition JoinedTable_orderBy ::
  "nat \<Rightarrow> ('f::linorder, 'd::linorder, 't::linorder) extlib \<Rightarrow> filesystem \<Rightarrow> JoinedTable
     \<Rightarrow> string \<Rightarrow> bool \<Rightarrow> (error + JoinedTable) option" where
  \<comment> \<open>\<open>JoinedTable.cpp\<close> has a copy of \<open>compareRows\<close>, the same text as in \<open>Table.cpp\<close>. The
      new stream gets no schema header.\<close>
  "JoinedTable_orderBy n lib fs jt colNames desc =
     (if colNames = [] then Some (Inr jt)
      else
        let nameVec = split colNames (CHR '','') False in
        bindF (JoinedTable_drain n lib fs jt []) (\<lambda>(rows, jt1).
        bindF (Some (std_sort (\<lambda>row1 row2. compareRows lib row1 row2 nameVec desc) rows))
          (\<lambda>sorted_rows.
             Some (Inr (with_members jt1
                     ((members jt1)
                        \<lparr>jtableStream :=
                           Some \<lparr>src = BufferSrc (map Row_write sorted_rows), pos = 0,
                                 failbit = False\<rparr>,
                         jhasRows := True\<rparr>))))))"

text \<open>
  A table as \<open>Table(tableName, schema)\<close> makes it and as pulling rows keeps it: no
  restriction, projection or distinct filter, a good stream on its own file, which holds
  the header \<open>h\<close> and the row lines \<open>rows\<close>, none of them longer than the schema.
\<close>

definition plain_table :: "filesystem \<Rightarrow> Table \<Rightarrow> line \<Rightarrow> line list \<Rightarrow> bool" where
  "plain_table fs t h rows \<longleftrightarrow>
     restriction t = [] \<and> colFilter t = [] \<and> \<not> distinctT t \<and> hasRows t
     \<and> src (tableStream t) = FileSrc (tablePath t) \<and> \<not> failbit (tableStream t)
     \<and> map_of fs (tablePath t) = Some (h # rows)
     \<and> (\<forall>l \<in> set rows. length l \<le> length (schema t))"

text \<open>
  The invariant of a join of two such tables without a condition, before its pull number
  \<open>i\<close>, counted from 0: no restriction, projection, distinct filter or stream of its
  own, the probe side will read its row \<open>i\<close>, and the build side will read its row
  \<open>i mod n\<close>, either at once or after it has met its end and was reset.
\<close>

definition cross_inv ::
  "filesystem \<Rightarrow> line \<Rightarrow> line list \<Rightarrow> line \<Rightarrow> line list \<Rightarrow> nat \<Rightarrow> JoinedTable \<Rightarrow> bool" where
  "cross_inv fs ph ps bh bs i jt \<longleftrightarrow>
     joinMap (members jt) = [] \<and> jtableStream (members jt) = None
     \<and> jrestriction (members jt) = [] \<and> jcolFilter (members jt) = []
     \<and> \<not> jdistinct (members jt)
     \<and> (\<exists>p b. probeTable jt = BaseTable p \<and> buildTable jt = BaseTable b
          \<and> plain_table fs p ph ps \<and> pos (tableStream p) - 1 = i
          \<and> plain_table fs b bh bs
          \<and> pos (tableStream b) \<le> length bs + 1
          \<and> (if pos (tableStream b) - 1 < length bs then pos (tableStream b) - 1 else 0)
              = i mod length bs)"

definition kth :: "'a list \<Rightarrow> nat \<Rightarrow> 'a" where
  \<comment> \<open>The \<open>k\<close>-th element of a list, counted from 1.\<close>
  "kth xs k = xs ! (k - 1)"

text \<open>
  For the statement about \<open>orderBy\<close>: the key of a cell is its value as its declared
  type reads it, \<open>None\<close> when the type is not one of the known ones, the value does not
  convert, or the value is a NaN, which has no place in the order. The key is a tuple with one component for each kind of type, so that the keys
  of one column are ordered as the values are. Two rows are comparable in a column when
  both have it, with the same declared type, and both cells have a key.
\<close>

type_synonym ('f, 'd, 't) cell_key = "string \<times> int \<times> 'f option \<times> 'd option \<times> 't option"

definition cell_key ::
  "('f::linorder, 'd::linorder, 't::linorder) extlib \<Rightarrow> Column \<Rightarrow> ('f, 'd, 't) cell_key option" where
  "cell_key lib col =
     (let dataType = colType (metadata col) in
      if str_find dataType ''char'' \<noteq> None then Some (colValue col, 0, None, None, None)
      else if dataType = ''int'' \<or> dataType = ''bigint'' then
        (case Column_long_long col of Inr n \<Rightarrow> Some ([], n, None, None, None) | Inl e \<Rightarrow> None)
      else if dataType = ''float'' \<or> dataType = ''double'' then
        (case Column_double lib col of
           Inr (Num x) \<Rightarrow> Some ([], 0, Some x, None, None)
         | _ \<Rightarrow> None)
      else if dataType = ''date'' then
        (case Column_date lib col of Inr d \<Rightarrow> Some ([], 0, None, Some d, None) | Inl e \<Rightarrow> None)
      else if dataType = ''time'' then
        (case Column_ptime lib col of Inr p \<Rightarrow> Some ([], 0, None, None, Some p) | Inl e \<Rightarrow> None)
      else None)"

fun row_key ::
  "('f::linorder, 'd::linorder, 't::linorder) extlib \<Rightarrow> string list \<Rightarrow> Row
     \<Rightarrow> ('f, 'd, 't) cell_key list option" where
  "row_key lib [] row = Some []"
| "row_key lib (cn # cns) row =
     (case Row_getColumn row cn of
        Inr col \<Rightarrow>
          (case cell_key lib col of
             Some k \<Rightarrow> map_option ((#) k) (row_key lib cns row)
           | None \<Rightarrow> None)
      | Inl e \<Rightarrow> None)"

definition comparable ::
  "('f::linorder, 'd::linorder, 't::linorder) extlib \<Rightarrow> string \<Rightarrow> Row \<Rightarrow> Row \<Rightarrow> bool" where
  "comparable lib cn row1 row2 =
     (case (Row_getColumn row1 cn, Row_getColumn row2 cn) of
        (Inr col1, Inr col2) \<Rightarrow>
          colType (metadata col1) = colType (metadata col2)
          \<and> cell_key lib col1 \<noteq> None \<and> cell_key lib col2 \<noteq> None
      | _ \<Rightarrow> False)"

definition well_typed ::
  "('f::linorder, 'd::linorder, 't::linorder) extlib \<Rightarrow> string list \<Rightarrow> Row list \<Rightarrow> bool" where
  "well_typed lib nameVec rows =
     (\<forall>row1 \<in> set rows. \<forall>row2 \<in> set rows. \<forall>cn \<in> set nameVec. comparable lib cn row1 row2)"

text \<open>
  The order that the specification names: the lexicographic order on the listed columns,
  each column ordered as its declared type orders the values, which is the order of the
  key lists. A row without a key list is in no relation to any row. A sequence of rows
  is ordered when every row is below, or equal to, every later one; with \<open>desc\<close>, when
  it is above or equal.
\<close>

definition rows_le ::
  "('f::linorder, 'd::linorder, 't::linorder) extlib \<Rightarrow> string list \<Rightarrow> Row \<Rightarrow> Row \<Rightarrow> bool" where
  "rows_le lib nameVec row1 row2 =
     (case (row_key lib nameVec row1, row_key lib nameVec row2) of
        (Some k1, Some k2) \<Rightarrow> k1 \<le> k2
      | _ \<Rightarrow> False)"

definition ordered_by ::
  "('f::linorder, 'd::linorder, 't::linorder) extlib \<Rightarrow> string list \<Rightarrow> bool \<Rightarrow> Row list \<Rightarrow> bool" where
  "ordered_by lib nameVec desc rows =
     sorted_wrt (\<lambda>row1 row2. if desc then rows_le lib nameVec row2 row1
                              else rows_le lib nameVec row1 row2) rows"

section \<open>Example tables\<close>

text \<open>
  Small table directories for the concrete evaluations below. \<open>names\<close> has a
  \<open>varchar(10)\<close> primary key and one row; \<open>keyed\<close> has an \<open>int\<close> primary key and two
  rows; in \<open>refs\<close> the column \<open>u.tid\<close> references \<open>t.id\<close> and holds the value \<open>1\<close> of
  the only row of \<open>t\<close>; \<open>big\<close> has one \<open>bigint\<close> column; \<open>empty\<close> has no row; \<open>people\<close>
  has an \<open>int\<close> and a \<open>varchar(5)\<close> column and three rows; \<open>colours\<close> has one column
  and two rows; \<open>a\<close>, \<open>b\<close> and \<open>c\<close> have one column and one, one and two rows;
  \<open>floats\<close> has one \<open>float\<close> column and four rows, one of them a NaN.
\<close>

definition names_schema :: Schema where
  "names_schema = [mkColumnMetadata ''name'' ''t'' ''varchar(10)'' [] True True]"

definition names_fs :: filesystem where
  "names_fs = [(''./tables/t.table'', [Schema_toString names_schema, [''abc'']])]"

definition quoted_abc :: string where
  \<comment> \<open>The five characters \<open>"abc"\<close>, as the parser passes a string literal on.\<close>
  "quoted_abc = dquote # ''abc'' @ [dquote]"

definition keyed_schema :: Schema where
  "keyed_schema = [mkColumnMetadata ''id'' ''k'' ''int'' [] True True]"

definition keyed_fs :: filesystem where
  "keyed_fs = [(''./tables/k.table'', [Schema_toString keyed_schema, [''1''], [''2'']])]"

definition ids_schema :: Schema where
  "ids_schema = [mkColumnMetadata ''id'' ''t'' ''int'' [] False False]"

definition refs_schema :: Schema where
  "refs_schema = [mkColumnMetadata ''tid'' ''u'' ''int'' ''t.id'' False False]"

definition refs_fs :: filesystem where
  "refs_fs = [(''./tables/t.table'', [Schema_toString ids_schema, [''1'']]),
              (''./tables/u.table'', [Schema_toString refs_schema, [''1'']])]"

definition big_schema :: Schema where
  "big_schema = [mkColumnMetadata ''n'' ''b'' ''bigint'' [] False False]"

definition big_fs :: filesystem where
  "big_fs = [(''./tables/b.table'', [Schema_toString big_schema])]"

definition empty_schema :: Schema where
  "empty_schema = [mkColumnMetadata ''id'' ''e'' ''int'' [] False False]"

definition empty_fs :: filesystem where
  "empty_fs = [(''./tables/e.table'', [Schema_toString empty_schema])]"

definition remote_example :: Table where
  \<comment> \<open>A table streamed from a URL, as \<open>extractTableFromURL\<close> builds it.\<close>
  "remote_example =
     Table_new_stream []
       \<lparr>src = SocketSrc [[''1'', ''x'']], pos = 0, failbit = False\<rparr>
       ''http://example.org/data/people.txt''
       (Schema_parse_tab ''http://example.org/data/people.txt''
          [''id'', ''varchar(25)'', [], ''false'', ''false'',
           ''name'', ''varchar(25)'', [], ''false'', ''false''])"

definition people_schema :: Schema where
  "people_schema = [mkColumnMetadata ''grp'' ''p'' ''int'' [] False False,
                    mkColumnMetadata ''name'' ''p'' ''varchar(5)'' [] False False]"

definition people_fs :: filesystem where
  "people_fs = [(''./tables/p.table'',
                 [Schema_toString people_schema, [''2'', ''b''], [''10'', ''z''], [''10'', ''a'']])]"



definition people_drained :: Table where
  \<comment> \<open>The table \<open>people\<close> after all of its rows were pulled.\<close>
  "people_drained =
     (Table_new people_fs ''p'' people_schema)
       \<lparr>hasRows := False,
        tableStream := \<lparr>src = FileSrc ''./tables/p.table'', pos = 4, failbit = True\<rparr>\<rparr>"

definition people_lines :: "line list" where
  "people_lines = [[''2'', ''b''], [''10'', ''z''], [''10'', ''a'']]"

definition colours_schema :: Schema where
  "colours_schema = [mkColumnMetadata ''colour'' ''c'' ''varchar(5)'' [] False False]"

definition colour_lines :: "line list" where
  "colour_lines = [[''red''], [''blue'']]"

definition join_fs :: filesystem where
  "join_fs = [(''./tables/p.table'', Schema_toString people_schema # people_lines),
              (''./tables/c.table'', Schema_toString colours_schema # colour_lines)]"

definition join_example :: JoinedTable where
  \<comment> \<open>\<open>people\<close> joined to \<open>colours\<close> without a condition: \<open>colours\<close>, with fewer rows,
      is the build side.\<close>
  "join_example =
     JoinedTable (default_members\<lparr>jschema := people_schema @ colours_schema\<rparr>)
       (BaseTable (Table_new join_fs ''c'' colours_schema))
       (BaseTable (Table_new join_fs ''p'' people_schema))"

definition one_schema :: "string \<Rightarrow> Schema" where
  "one_schema tn = [mkColumnMetadata ''v'' tn ''varchar(5)'' [] False False]"

definition nest_fs :: filesystem where
  "nest_fs = [(''./tables/a.table'', [Schema_toString (one_schema ''a''), [''a1'']]),
              (''./tables/b.table'', [Schema_toString (one_schema ''b''), [''b1'']]),
              (''./tables/c.table'', [Schema_toString (one_schema ''c''), [''c1''], [''c2'']])]"

definition nest_ab :: JoinedTable where
  \<comment> \<open>\<open>a\<close> joined to \<open>b\<close>, as \<open>executeSelectQuery\<close> builds it for \<open>FROM a , b , c\<close>.\<close>
  "nest_ab =
     JoinedTable (default_members\<lparr>jschema := one_schema ''b'' @ one_schema ''a''\<rparr>)
       (BaseTable (Table_new nest_fs ''a'' (one_schema ''a'')))
       (BaseTable (Table_new nest_fs ''b'' (one_schema ''b'')))"

definition nest_abc :: JoinedTable where
  \<comment> \<open>That join joined to \<open>c\<close>: the join of \<open>a\<close> and \<open>b\<close> is the build side.\<close>
  "nest_abc =
     JoinedTable
       (default_members\<lparr>jschema := one_schema ''c'' @ one_schema ''b'' @ one_schema ''a''\<rparr>)
       (JoinTable nest_ab)
       (BaseTable (Table_new nest_fs ''c'' (one_schema ''c'')))"

definition remote_table :: "string \<Rightarrow> line list \<Rightarrow> Table" where
  \<comment> \<open>A table with one column, streamed from a URL: the socket holds the lines after
      the header.\<close>
  "remote_table url ls =
     Table_new_stream [] \<lparr>src = SocketSrc ls, pos = 0, failbit = False\<rparr> url
       (Schema_parse_tab url [''v'', ''varchar(25)'', [], ''false'', ''false''])"

definition remote_join :: JoinedTable where
  \<comment> \<open>Two remote tables joined without a condition; the first is the build side.\<close>
  "remote_join =
     JoinedTable
       (default_members
          \<lparr>jschema := schema (remote_table ''http://example.org/s.txt'' [])
                      @ schema (remote_table ''http://example.org/r.txt'' [])\<rparr>)
       (BaseTable (remote_table ''http://example.org/r.txt'' [[''r1'']]))
       (BaseTable (remote_table ''http://example.org/s.txt'' [[''s1''], [''s2'']]))"

definition floats_schema :: Schema where
  "floats_schema = [mkColumnMetadata ''x'' ''f'' ''float'' [] False False]"




definition floats_empty_fs :: filesystem where
  "floats_empty_fs = [(''./tables/f.table'', [Schema_toString floats_schema])]"

definition odd_quote_query :: string where
  \<comment> \<open>The query \<open>drop table "\" ;\<close>: one double quote that is not escaped and one that
      is.\<close>
  "odd_quote_query = ''drop table '' @ [dquote, backslash, dquote] @ '' ;''"

section \<open>Properties\<close>

lemma bindE_simps [simp]:
  "bindE (Inl e) f = Inl e"
  "bindE (Inr x) f = f x"
  by (simp_all add: bindE_def)

lemmas char_consts = NUL_def dquote_def squote_def backslash_def

lemmas string_util_defs = split_def toLowercase_def to_lower_def extractQuoted_def
  getEscapedString_def getEscapedChar_def

subsection \<open>Column comparison on an unrecognised type\<close>

text \<open>
  C10. When the declared type of the left operand does not contain \<open>char\<close> and is none of
  \<open>int\<close>, \<open>bigint\<close>, \<open>float\<close>, \<open>double\<close>, \<open>date\<close>, \<open>time\<close>, each of the operators
  \<open>==\<close>, \<open><\<close>, \<open>>\<close>, \<open><=\<close>, \<open>>=\<close> returns false, whatever the two values and
  whatever the right operand is; with \<open>col = this\<close>, the column is not equal to itself.
\<close>

theorem Column_compare_unrecognised_type:
  assumes "str_find (colType (metadata this)) ''char'' = None"
    and "colType (metadata this) \<notin> {''int'', ''bigint'', ''float'', ''double'', ''date'', ''time''}"
  shows "Column_eq lib this col = Inr False \<and> Column_less lib this col = Inr False
       \<and> Column_greater lib this col = Inr False \<and> Column_less_eq lib this col = Inr False
       \<and> Column_greater_eq lib this col = Inr False"
  using assms
  by (simp add: Column_eq_def Column_less_def Column_greater_def Column_less_eq_def
      Column_greater_eq_def Column_compare_def)

theorem Column_compare_unrecognised_type_witness:
  "str_find (colType (metadata (Column2 [] defaultMetadata))) ''char'' = None
   \<and> colType (metadata (Column2 [] defaultMetadata))
       \<notin> {''int'', ''bigint'', ''float'', ''double'', ''date'', ''time''}
   \<and> Column_eq integer_lib (Column2 [] defaultMetadata) (Column2 [] defaultMetadata) = Inr False
   \<and> Column_less integer_lib (Column2 [] defaultMetadata) (Column2 [] defaultMetadata) = Inr False
   \<and> Column_greater integer_lib (Column2 [] defaultMetadata) (Column2 [] defaultMetadata)
       = Inr False
   \<and> Column_less_eq integer_lib (Column2 [] defaultMetadata) (Column2 [] defaultMetadata)
       = Inr False
   \<and> Column_greater_eq integer_lib (Column2 [] defaultMetadata) (Column2 [] defaultMetadata)
       = Inr False"
proof -
  have h1: "str_find (colType (metadata (Column2 [] defaultMetadata))) ''char'' = None"
    by (simp add: Column2_def defaultMetadata_def)
  have h2: "colType (metadata (Column2 [] defaultMetadata))
              \<notin> {''int'', ''bigint'', ''float'', ''double'', ''date'', ''time''}"
    by (simp add: Column2_def defaultMetadata_def)
  from Column_compare_unrecognised_type[OF h1 h2, of integer_lib "Column2 [] defaultMetadata"]
    h1 h2
  show ?thesis by blast
qed

subsection \<open>Compilation of a restriction\<close>

lemma drain_stack_emit: "drain_stack st os = os @ emit st"
  by (induction st arbitrary: os) (simp_all add: emit_def)

lemma emit_append: "emit (xs @ ys) = emit xs @ emit ys"
  by (simp add: emit_def)

lemma emit_Nil_iff: "emit toks = [] \<longleftrightarrow> toks = []"
  by (cases toks) (simp_all add: emit_def)

lemma pop_until_paren_found:
  "''('' \<in> set st \<Longrightarrow>
   pop_until_paren st os =
     Inr (drop 1 (dropWhile (\<lambda>x. x \<noteq> ''('') st), os @ emit (takeWhile (\<lambda>x. x \<noteq> ''('') st))"
  by (induction st arbitrary: os) (auto simp: emit_def)

lemma count_list_pos_mem: "0 < count_list st x \<Longrightarrow> x \<in> set st"
  by (induction st) (auto split: if_splits)

lemma count_list_drop_dropWhile:
  "count_list (drop 1 (dropWhile (\<lambda>y. y \<noteq> x) st)) x = count_list st x - 1"
  by (induction st) auto

lemma toLowercase_keywords [simp]:
  "toLowercase ''and'' = ''and''" "toLowercase ''or'' = ''or''"
  "toLowercase ''('' = ''(''" "toLowercase '')'' = '')''"
  by (simp_all add: toLowercase_def to_lower_def)

text \<open>
  The loop invariant: with the open parentheses of the stack counted, the loop does not
  fail, and draining what it leaves gives the reference output for the same stack.
\<close>

lemma parse_parts_reference:
  "parens_matched parts (count_list st ''('') \<Longrightarrow>
   \<exists>st' os'. parse_parts parts st os = Inr (st', os') \<and>
     drain_stack st' os' = os @ emit (postfix_reference (map lower_connective parts) st)"
proof (induction parts arbitrary: st os)
  case Nil
  then show ?case by (simp add: drain_stack_emit)
next
  case (Cons part parts)
  consider (conn) "toLowercase part = ''and'' \<or> toLowercase part = ''or''"
    | (opn) "part = ''(''"
    | (cls) "part = '')''"
    | (other) "toLowercase part \<noteq> ''and''" "toLowercase part \<noteq> ''or''"
        "part \<noteq> ''(''" "part \<noteq> '')''"
    by blast
  then show ?case
  proof cases
    case conn
    then have np: "part \<noteq> ''(''" "part \<noteq> '')''" by auto
    from conn have lc: "lower_connective part = toLowercase part"
      by (simp add: lower_connective_def)
    from Cons.prems np have pm: "parens_matched parts (count_list (toLowercase part # st) ''('')"
      using conn by auto
    from Cons.IH[OF pm, of os] conn lc show ?thesis by auto
  next
    case opn
    then have lc: "lower_connective part = ''(''" by (simp add: lower_connective_def)
    from Cons.prems opn have pm: "parens_matched parts (count_list (''('' # st) ''('')" by simp
    from Cons.IH[OF pm, of os] opn lc show ?thesis by simp
  next
    case cls
    then have lc: "lower_connective part = '')''" by (simp add: lower_connective_def)
    from Cons.prems cls have pos: "0 < count_list st ''(''"
      and pm0: "parens_matched parts (count_list st ''('' - 1)" by simp_all
    from pos have mem: "''('' \<in> set st" by (rule count_list_pos_mem)
    let ?st = "drop 1 (dropWhile (\<lambda>x. x \<noteq> ''('') st)"
    let ?os = "os @ emit (takeWhile (\<lambda>x. x \<noteq> ''('') st)"
    from pm0 have pm: "parens_matched parts (count_list ?st ''('')"
      using count_list_drop_dropWhile[of "''(''" st] by simp
    from Cons.IH[OF pm, of ?os] cls lc pop_until_paren_found[OF mem, of os]
    show ?thesis by (simp add: emit_append)
  next
    case other
    then have lc: "lower_connective part = part" by (simp add: lower_connective_def)
    from other have ne: "part \<noteq> ''and''" "part \<noteq> ''or''" by auto
    from Cons.prems other have pm: "parens_matched parts (count_list st ''('')" by simp
    from Cons.IH[OF pm, of "os @ part @ '' ''"] other lc ne show ?thesis
      by (simp add: emit_def)
  qed
qed

lemma butlast_emit: "toks \<noteq> [] \<Longrightarrow> butlast (emit toks) = unwords toks"
proof (induction toks rule: unwords.induct)
  case 1
  then show ?case by simp
next
  case (2 t)
  then show ?case by (simp add: emit_def butlast_append)
next
  case (3 t v va)
  have "emit (t # v # va) = (t @ '' '') @ emit (v # va)" by (simp add: emit_def)
  moreover have "emit (v # va) \<noteq> []" by (simp add: emit_Nil_iff)
  ultimately have "butlast (emit (t # v # va)) = (t @ '' '') @ butlast (emit (v # va))"
    by (simp add: butlast_append)
  with 3 show ?case by simp
qed

text \<open>
  C5, as the code has it. For a non-empty restriction in which every \<open>)\<close> closes an
  earlier \<open>(\<close> and from which at least one token reaches the output, compilation returns
  the output of the reference stack algorithm, its tokens separated by single spaces,
  where the connectives \<open>and\<close> and \<open>or\<close> are recognised in any letter case and are
  written in lower case. Nothing is said about a restriction with an unmatched \<open>)\<close> or
  without any output token.
\<close>

theorem parseRestriction_postfix:
  assumes "body \<noteq> []"
    and "parens_matched (split body (CHR '' '') True) 0"
    and "postfix_reference (map lower_connective (split body (CHR '' '') True)) [] \<noteq> []"
  shows "parseRestriction body =
           Inr (unwords (postfix_reference
                  (map lower_connective (split body (CHR '' '') True)) []))"
proof -
  let ?parts = "split body (CHR '' '') True"
  let ?ref = "postfix_reference (map lower_connective ?parts) []"
  from assms(2) have "parens_matched ?parts (count_list [] ''('')" by simp
  from parse_parts_reference[OF this, of "[]"]
  obtain st' os' where p: "parse_parts ?parts [] [] = Inr (st', os')"
    and d: "drain_stack st' os' = emit ?ref" by auto
  from assms(3) have "emit ?ref \<noteq> []" by (simp add: emit_Nil_iff)
  with p d assms(1) show ?thesis
    by (simp add: parseRestriction_def butlast_emit[OF assms(3)])
qed

theorem parseRestriction_postfix_witness:
  "''a = 1 AND ( b = 2 or c = 3 )'' \<noteq> []
   \<and> parens_matched (split ''a = 1 AND ( b = 2 or c = 3 )'' (CHR '' '') True) 0
   \<and> postfix_reference
        (map lower_connective (split ''a = 1 AND ( b = 2 or c = 3 )'' (CHR '' '') True)) []
       \<noteq> []
   \<and> parseRestriction ''a = 1 AND ( b = 2 or c = 3 )'' = Inr ''a = 1 b = 2 c = 3 or and''"
  using parseRestriction_postfix[of "''a = 1 AND ( b = 2 or c = 3 )''"]
  by (simp add: string_util_defs char_consts lower_connective_def)

text \<open>
  The claim as it is worded fails on a connective in upper case: the code moves it
  behind its operands and writes it in lower case, while the reference algorithm of the
  specification, which knows the tokens \<open>and\<close> and \<open>or\<close> only, passes \<open>AND\<close> through
  like an operand.
\<close>

theorem parseRestriction_uppercase_counterexample:
  "parseRestriction ''a = 1 AND b = 2'' = Inr ''a = 1 b = 2 and''
   \<and> unwords (postfix_reference (split ''a = 1 AND b = 2'' (CHR '' '') True) [])
       = ''a = 1 AND b = 2''"
  by (simp add: string_util_defs char_consts parseRestriction_def)

text \<open>
  Two inputs on which the loop itself has no result: a restriction made of parentheses
  only leaves the output empty, and erasing its last character throws; a \<open>)\<close> without
  an open \<open>(\<close> reads the top of an empty stack.
\<close>

lemma parseRestriction_only_parens: "parseRestriction ''( )'' = Inl out_of_range"
  by (simp add: string_util_defs char_consts parseRestriction_def)

lemma parseRestriction_unmatched: "parseRestriction ''a = 1 )'' = Inl undefined_behaviour"
  by (simp add: string_util_defs char_consts parseRestriction_def)

subsection \<open>Evaluation\<close>

lemmas fs_defs = TABLE_DIRECTORY_def TABLE_EXTENSION_def TEMP_EXTENSION_def fs_remove_def
  fs_rename_def path_stem_def stream_lines_def good_def remaining_def getline_def tellg_def
  seekable_def seekg_def clear_def consume_def append_tmp_def append_line_def

lemmas schema_defs = bool_token_def Schema_toString_def Schema_parse_def mkColumnMetadata_def
  defaultMetadata_def Row0_def Row1_def Row_read_def Row_write_def mkRow_def Row_getColumn_def
  Column0_def Column1_def Column2_def UNDEFINED_def NULL_VALUE_def isNull_def Column_bool_def

lemmas conv_defs = is_space_def is_digit_def digit_val_def digits_value_def strtoll_parse_def
  stoi_def stoll_def lib_call_def Column_int_def Column_long_long_def Column_double_def
  Column_float_def Column_date_def Column_ptime_def unsigned_int_def

lemmas table_defs = tablePath_def tmpFilePath_def reset_def countRows_def Table_new_def
  Table_new_stream_def getRowCount_def setRestrictions_def discard_def validateDataType_def
  quoted_at_def checkForDuplicateValue_def validateColumnValue_def insertRow_def
  writeUpdatedRows_def updateRows_def writeUndeletedRows_def deleteRows_def
  formatColumnValue_def validateReferencedColumn_def validateReferencedBy_path_def
  validateReferencedBy_def is_exception_def Restriction_apply_def

lemmas restriction_defs = parseRestriction_def evaluateRestriction_def getColumnValue_def
  compareValues_def compareValues_double_def parse_rel_op_def compareColumnTypes_def
  integer_lib_def integer_float_def

lemmas query_defs = Query_new_def parse_def formatQuery_def find_semicolon_def
  length_minus_one_def npos_def isBalanced_def parseDropQuery_def

subsection \<open>Modifiers on a remote table\<close>

text \<open>
  C3, as the code has it. On a table that comes from a URL, \<open>updateRows\<close> and
  \<open>deleteRows\<close> throw \<open>InvalidQueryException\<close> and \<open>insertRow\<close> returns without an
  error; all three leave the table and the files as they were.
\<close>

theorem remote_table_modifiers:
  assumes "isFromURL t"
  shows "updateRows lib fs t columnsToUpdate
           = (Some (InvalidQueryException ''Cannot update a remote table''), t, fs)
       \<and> deleteRows lib fs t
           = (Some (InvalidQueryException ''Cannot delete from a remote table''), t, fs)
       \<and> insertRow lib fs t row = (None, t, fs)"
  using assms by (simp add: updateRows_def deleteRows_def insertRow_def)

lemma remote_example_isFromURL: "isFromURL remote_example"
  by (simp add: remote_example_def Table_new_stream_def Let_def)

theorem remote_table_modifiers_witness:
  "isFromURL remote_example
   \<and> updateRows integer_lib [] remote_example [(''id'', ''2'')]
       = (Some (InvalidQueryException ''Cannot update a remote table''), remote_example, [])
   \<and> deleteRows integer_lib [] remote_example
       = (Some (InvalidQueryException ''Cannot delete from a remote table''), remote_example, [])
   \<and> insertRow integer_lib [] remote_example Row0 = (None, remote_example, [])"
  using remote_table_modifiers[OF remote_example_isFromURL, of integer_lib "[]"
      "[(''id'', ''2'')]" Row0] remote_example_isFromURL
  by simp

text \<open>The claim as it is worded fails for \<open>insertRow\<close>: no error is raised.\<close>

theorem remote_insert_counterexample:
  "isFromURL remote_example \<and> fst (insertRow integer_lib [] remote_example Row0) = None"
  by (simp add: remote_example_isFromURL insertRow_def)

subsection \<open>The row count after deleteRows\<close>

lemma writeUndeletedRows_rowCount:
  "writeUndeletedRows lib fs t = (e, t', fs') \<Longrightarrow> rowCount t' = rowCount t"
  by (auto simp: writeUndeletedRows_def Let_def split: prod.splits option.splits)

text \<open>
  C9, as the code has it. A call of \<open>deleteRows\<close> on a local table that returns lowers
  the \<open>unsigned int\<close> row count by one modulo \<open>2^32\<close>, whatever rows the restriction
  matched: a count of at least one goes down by exactly one, and the count \<open>0\<close> of an
  empty table becomes \<open>4294967295\<close>.
\<close>

theorem deleteRows_rowCount:
  assumes "\<not> isFromURL t" and "deleteRows lib fs t = (None, t', fs')"
  shows "getRowCount t' = getRowCount t - 1
       \<and> (getRowCount t \<noteq> 0 \<longrightarrow> unat (getRowCount t') = unat (getRowCount t) - 1)
       \<and> (getRowCount t = 0 \<longrightarrow> unat (getRowCount t') = 4294967295)"
proof -
  from assms have eq: "getRowCount t' = getRowCount t - 1"
    by (auto simp: deleteRows_def getRowCount_def Let_def
        split: prod.splits option.splits dest: writeUndeletedRows_rowCount)
  moreover have "getRowCount t \<noteq> 0 \<longrightarrow> unat (getRowCount t - 1) = unat (getRowCount t) - 1"
    by (simp add: unat_minus_one)
  moreover have "getRowCount t = 0 \<longrightarrow> unat (getRowCount t - 1) = 4294967295"
    by (simp add: unsigned_minus_1_eq_mask mask_eq_exp_minus_1)
  ultimately show ?thesis by simp
qed

text \<open>
  The witness deletes from \<open>keyed\<close> without a restriction: both rows match and are
  removed, and the count goes from 2 to 1.
\<close>

theorem deleteRows_rowCount_witness:
  "\<not> isFromURL (Table_new keyed_fs ''k'' keyed_schema)
   \<and> deleteRows integer_lib keyed_fs (Table_new keyed_fs ''k'' keyed_schema)
       = (None,
          (Table_new keyed_fs ''k'' keyed_schema)
            \<lparr>rowCount := 1,
             tableStream := \<lparr>src = FileSrc ''./tables/k.table'', pos = 3, failbit = True\<rparr>\<rparr>,
          [(''./tables/k.table'', [Schema_toString keyed_schema])])
   \<and> getRowCount (Table_new keyed_fs ''k'' keyed_schema) = 2
   \<and> getRowCount ((Table_new keyed_fs ''k'' keyed_schema)
            \<lparr>rowCount := 1,
             tableStream := \<lparr>src = FileSrc ''./tables/k.table'', pos = 3, failbit = True\<rparr>\<rparr>)
       = getRowCount (Table_new keyed_fs ''k'' keyed_schema) - 1"
proof -
  have local: "\<not> isFromURL (Table_new keyed_fs ''k'' keyed_schema)"
    by (simp add: Table_new_def countRows_def reset_def Let_def)
  have run: "deleteRows integer_lib keyed_fs (Table_new keyed_fs ''k'' keyed_schema)
       = (None,
          (Table_new keyed_fs ''k'' keyed_schema)
            \<lparr>rowCount := 1,
             tableStream := \<lparr>src = FileSrc ''./tables/k.table'', pos = 3, failbit = True\<rparr>\<rparr>,
          [(''./tables/k.table'', [Schema_toString keyed_schema])])"
    by (simp add: keyed_fs_def keyed_schema_def table_defs fs_defs schema_defs Let_def)
  have cnt: "getRowCount (Table_new keyed_fs ''k'' keyed_schema) = 2"
    by (simp add: keyed_fs_def keyed_schema_def table_defs fs_defs schema_defs Let_def)
  from deleteRows_rowCount[OF local run] local run cnt show ?thesis by simp
qed

text \<open>
  The claim as it is worded fails on an empty table: the call returns, and the count
  goes from 0 up to \<open>4294967295\<close>.
\<close>

theorem deleteRows_empty_table_counterexample:
  "\<not> isFromURL (Table_new empty_fs ''e'' empty_schema)
   \<and> fst (deleteRows integer_lib empty_fs (Table_new empty_fs ''e'' empty_schema)) = None
   \<and> unat (getRowCount (Table_new empty_fs ''e'' empty_schema)) = 0
   \<and> unat (getRowCount
        (fst (snd (deleteRows integer_lib empty_fs (Table_new empty_fs ''e'' empty_schema)))))
       = 4294967295"
  by (simp add: empty_fs_def empty_schema_def table_defs fs_defs schema_defs Let_def
      unsigned_minus_1_eq_mask mask_eq_exp_minus_1)

subsection \<open>The type check of an inserted value\<close>

text \<open>
  C4 at the type \<open>bigint\<close>. The value \<open>abc\<close> is not null and is no integer, yet
  \<open>validateDataType\<close> accepts it for a \<open>bigint\<close> column, because the branch for 64-bit
  integers tests the type name \<open>long\<close>; the insert succeeds and the row is written.
\<close>

theorem insertRow_bigint_not_checked:
  "''abc'' \<noteq> NULL_VALUE
   \<and> Column_long_long (Column1 ''abc'') = Inl (invalid_argument ''stoll'')
   \<and> validateDataType lib ''n'' ''bigint'' ''abc'' = Inr ()
   \<and> mkRow big_schema [''abc'']
       = Inr \<lparr>columns = [Column2 ''abc'' (hd big_schema)], rschema = []\<rparr>
   \<and> insertRow lib big_fs (Table_new big_fs ''b'' big_schema)
         \<lparr>columns = [Column2 ''abc'' (hd big_schema)], rschema = []\<rparr>
       = (None, (Table_new big_fs ''b'' big_schema)\<lparr>rowCount := 1\<rparr>,
          [(''./tables/b.table'', [Schema_toString big_schema, [''abc'']])])"
  by (simp add: big_fs_def big_schema_def table_defs fs_defs schema_defs conv_defs
      string_util_defs char_consts Let_def)

text \<open>What does hold: the null value passes for every type, and a value that is no
  \<open>int\<close> is rejected for an \<open>int\<close> column with a message that names the column.\<close>

lemma validateDataType_null: "validateDataType lib cn dataType NULL_VALUE = Inr ()"
  by (simp add: validateDataType_def)

lemma validateDataType_int_rejects:
  assumes "v \<noteq> NULL_VALUE" and "Column_int (Column1 v) = Inl e"
  shows "validateDataType lib cn ''int'' v
           = Inl (InvalidQueryException (''Invalid data type: expected int for column '' @ cn))"
proof -
  from assms(2) have "is_exception e"
    by (auto simp: Column_int_def stoi_def is_exception_def bindE_def
        split: option.splits prod.splits if_splits sum.splits)
  with assms show ?thesis
    by (simp add: validateDataType_def discard_def Let_def)
qed

subsection \<open>Primary keys\<close>

text \<open>
  C2 on an update. \<open>keyed\<close> has the primary key \<open>id\<close> and the rows 1 and 2. The update
  that sets \<open>id\<close> to 5 where \<open>id > 0\<close> returns without an error (5 is not in the file when
  it is checked), and both rows then hold the key 5.
\<close>

theorem updateRows_duplicate_primary_key:
  "setRestrictions (Table_new keyed_fs ''k'' keyed_schema) ''id > 0''
     = Inr ((Table_new keyed_fs ''k'' keyed_schema)\<lparr>restriction := ''id > 0''\<rparr>)
   \<and> primaryKey (hd keyed_schema)
   \<and> fst (updateRows integer_lib keyed_fs
            ((Table_new keyed_fs ''k'' keyed_schema)\<lparr>restriction := ''id > 0''\<rparr>)
            [(''id'', ''5'')]) = None
   \<and> snd (snd (updateRows integer_lib keyed_fs
            ((Table_new keyed_fs ''k'' keyed_schema)\<lparr>restriction := ''id > 0''\<rparr>)
            [(''id'', ''5'')]))
       = [(''./tables/k.table'', [Schema_toString keyed_schema, [''5''], [''5'']])]"
  by (simp add: keyed_fs_def keyed_schema_def table_defs fs_defs schema_defs conv_defs
      restriction_defs string_util_defs char_consts Let_def)

text \<open>
  The same on an insert into a character column: the value is compared with the file
  while it still carries its quotes, so the stored \<open>abc\<close> is not found, and a second row
  with the key \<open>abc\<close> is written.
\<close>

lemma insertRow_duplicate_primary_key:
  "mkRow names_schema [quoted_abc]
     = Inr \<lparr>columns = [Column2 quoted_abc (hd names_schema)], rschema = []\<rparr>
   \<and> insertRow lib names_fs (Table_new names_fs ''t'' names_schema)
         \<lparr>columns = [Column2 quoted_abc (hd names_schema)], rschema = []\<rparr>
       = (None, (Table_new names_fs ''t'' names_schema)\<lparr>rowCount := 2\<rparr>,
          [(''./tables/t.table'', [Schema_toString names_schema, [''abc''], [''abc'']])])"
  by (simp add: names_fs_def names_schema_def quoted_abc_def table_defs fs_defs schema_defs
      conv_defs string_util_defs char_consts Let_def)

subsection \<open>A failed update or delete\<close>

text \<open>
  C1 on an update. In \<open>refs\<close> the value 1 of \<open>t.id\<close> is referenced by \<open>u.tid\<close>. The
  update of \<open>t\<close> that sets \<open>id\<close> to 2 fails with \<open>InvalidQueryException\<close>; the file of
  \<open>t\<close> is as before, but the temporary file \<open>./tables/t.tmp\<close> is still there, holding
  the header.
\<close>

theorem updateRows_failure_leaves_tmp:
  "fst (updateRows lib refs_fs (Table_new refs_fs ''t'' ids_schema) [(''id'', ''2'')])
     = Some (InvalidQueryException ''Column u.tid references a value being modified or deleted'')
   \<and> snd (snd (updateRows lib refs_fs (Table_new refs_fs ''t'' ids_schema) [(''id'', ''2'')]))
     = refs_fs @ [(''./tables/t.tmp'', [Schema_toString ids_schema])]"
  by (simp add: refs_fs_def ids_schema_def refs_schema_def table_defs fs_defs schema_defs
      conv_defs string_util_defs char_consts Let_def)

text \<open>
  The delete of the same row fails in the same way and does remove the temporary file:
  the files are exactly as before.
\<close>

lemma deleteRows_failure_removes_tmp:
  "fst (deleteRows lib refs_fs (Table_new refs_fs ''t'' ids_schema))
     = Some (InvalidQueryException ''Column u.tid references a value being modified or deleted'')
   \<and> snd (snd (deleteRows lib refs_fs (Table_new refs_fs ''t'' ids_schema))) = refs_fs"
  by (simp add: refs_fs_def ids_schema_def refs_schema_def table_defs fs_defs schema_defs
      conv_defs string_util_defs char_consts Let_def)

subsection \<open>Rejection of malformed queries\<close>

text \<open>
  C8 on quotes. The query \<open>drop table "\" ;\<close> has exactly one double quote that is not
  escaped, an odd number, and it is parsed without an error into a DROP of the table
  named by the three characters between the spaces: \<open>isBalanced\<close> splits at every double
  quote, escaped or not, and finds two.
\<close>

theorem Query_new_accepts_odd_quotes:
  "count_unescaped dquote False odd_quote_query = 1
   \<and> Query_new others odd_quote_query
       = Inr (DROP, [''tableName'' \<mapsto> [dquote, backslash, dquote]])"
  by (simp add: odd_quote_query_def query_defs string_util_defs char_consts)

subsection \<open>The order of the rows after orderBy\<close>

text \<open>
  Two cells of one declared type that both have a key compare as their keys do.
\<close>

lemma Column_compare_key:
  assumes k1: "cell_key lib c1 = Some k1" and k2: "cell_key lib c2 = Some k2"
    and ty: "colType (metadata c1) = colType (metadata c2)"
  shows "Column_compare lib opr c1 c2 = Inr (apply_cmp opr k1 k2)"
proof -
  define dt where "dt = colType (metadata c2)"
  have t1: "colType (metadata c1) = dt" and t2: "colType (metadata c2) = dt"
    using ty by (simp_all add: dt_def)
  define A where "A = (str_find dt ''char'' \<noteq> None)"
  define B where "B = (dt = ''int'' \<or> dt = ''bigint'')"
  define C where "C = (dt = ''float'' \<or> dt = ''double'')"
  define D where "D = (dt = ''date'')"
  define E where "E = (dt = ''time'')"
  have key: "cell_key lib c =
     (if A then Some (colValue c, 0, None, None, None)
      else if B then
        (case Column_long_long c of Inr n \<Rightarrow> Some ([], n, None, None, None) | Inl e \<Rightarrow> None)
      else if C then
        (case Column_double lib c of
           Inr (Num x) \<Rightarrow> Some ([], 0, Some x, None, None)
         | _ \<Rightarrow> None)
      else if D then
        (case Column_date lib c of Inr d \<Rightarrow> Some ([], 0, None, Some d, None) | Inl e \<Rightarrow> None)
      else if E then
        (case Column_ptime lib c of Inr p \<Rightarrow> Some ([], 0, None, None, Some p) | Inl e \<Rightarrow> None)
      else None)" if "colType (metadata c) = dt" for c
    using that unfolding cell_key_def Let_def A_def B_def C_def D_def E_def by simp
  have cmp: "Column_compare lib opr c1 c2 =
     (if A then Inr (apply_cmp opr (colValue c1) (colValue c2))
      else if B then
        bindE (Column_long_long c1) (\<lambda>a.
        bindE (Column_long_long c2) (\<lambda>b. Inr (apply_cmp opr a b)))
      else if C then
        bindE (Column_double lib c1) (\<lambda>a.
        bindE (Column_double lib c2) (\<lambda>b. Inr (ieee_cmp opr a b)))
      else if D then
        bindE (Column_date lib c1) (\<lambda>a.
        bindE (Column_date lib c2) (\<lambda>b. Inr (apply_cmp opr a b)))
      else if E then
        bindE (Column_ptime lib c1) (\<lambda>a.
        bindE (Column_ptime lib c2) (\<lambda>b. Inr (apply_cmp opr a b)))
      else Inr False)"
    unfolding Column_compare_def Let_def A_def B_def C_def D_def E_def t1 by simp
  from k1 k2 show ?thesis
    unfolding cmp key[OF t1] key[OF t2]
    by (cases opr) (auto split: if_splits sum.splits ieee.splits)
qed

text \<open>
  On two rows that are comparable in every listed column, \<open>compareRows\<close> does not throw
  and is the strict lexicographic order of the key lists, reversed for \<open>desc\<close>.
\<close>

lemma compareRows_key:
  assumes "\<forall>cn \<in> set nameVec. comparable lib cn row1 row2"
  shows "\<exists>k1 k2. row_key lib nameVec row1 = Some k1 \<and> row_key lib nameVec row2 = Some k2
           \<and> compareRows lib row1 row2 nameVec desc = Inr (if desc then k2 < k1 else k1 < k2)"
  using assms
proof (induction nameVec)
  case Nil
  then show ?case by simp
next
  case (Cons cn cns)
  from Cons.prems have c: "comparable lib cn row1 row2"
    and rest: "\<forall>cn \<in> set cns. comparable lib cn row1 row2" by simp_all
  from c obtain col1 col2 a b where g1: "Row_getColumn row1 cn = Inr col1"
    and g2: "Row_getColumn row2 cn = Inr col2"
    and ty: "colType (metadata col1) = colType (metadata col2)"
    and ka: "cell_key lib col1 = Some a" and kb: "cell_key lib col2 = Some b"
    by (auto simp: comparable_def split: sum.splits)
  from Cons.IH[OF rest] obtain k1 k2 where r1: "row_key lib cns row1 = Some k1"
    and r2: "row_key lib cns row2 = Some k2"
    and cr: "compareRows lib row1 row2 cns desc = Inr (if desc then k2 < k1 else k1 < k2)"
    by blast
  note cc = Column_compare_key[OF ka kb ty]
  have "compareRows lib row1 row2 (cn # cns) desc
          = Inr (if desc then b # k2 < a # k1 else a # k1 < b # k2)"
    using g1 g2 cr cc[of Eq] cc[of Lt] cc[of Gt]
    by (auto simp: Column_eq_def Column_less_def Column_greater_def)
  then show ?case using g1 g2 ka kb r1 r2 by simp
qed

text \<open>
  The sort: with a comparison that does not throw on the elements and is a strict weak
  ordering, the result is a permutation in which no element is less than an earlier one.
\<close>

lemma unguarded_linear_insert_rel:
  assumes cmp: "\<forall>b \<in> set rs. cmp x b = Inr (lt x b)"
    and trans: "\<forall>a b c. \<not> lt b a \<longrightarrow> \<not> lt c b \<longrightarrow> \<not> lt c a"
    and asym: "\<forall>a b. lt a b \<longrightarrow> \<not> lt b a"
    and sorted: "sorted_wrt (\<lambda>a b. \<not> lt a b) rs"
    and stop: "\<exists>b \<in> set rs. \<not> lt x b"
  shows "\<exists>r. unguarded_linear_insert cmp x rs = Inr r \<and> mset r = add_mset x (mset rs)
           \<and> sorted_wrt (\<lambda>a b. \<not> lt a b) r"
  using cmp sorted stop
proof (induction rs)
  case Nil
  then show ?case by simp
next
  case (Cons y ys)
  show ?case
  proof (cases "lt x y")
    case True
    from Cons.prems True have "\<forall>b \<in> set ys. cmp x b = Inr (lt x b)"
      "sorted_wrt (\<lambda>a b. \<not> lt a b) ys" "\<exists>b \<in> set ys. \<not> lt x b" by auto
    from Cons.IH[OF this] obtain r where r: "unguarded_linear_insert cmp x ys = Inr r"
      "mset r = add_mset x (mset ys)" "sorted_wrt (\<lambda>a b. \<not> lt a b) r" by blast
    from r(2) have "set r = insert x (set ys)" by (metis set_mset_add_mset_insert set_mset_mset)
    with Cons.prems(2) asym True r(3) have "sorted_wrt (\<lambda>a b. \<not> lt a b) (y # r)" by auto
    with True r Cons.prems(1) show ?thesis by simp
  next
    case False
    from Cons.prems(2) have "\<forall>z \<in> set ys. \<not> lt y z" by simp
    with False trans have "\<forall>z \<in> set ys. \<not> lt x z" by blast
    with False Cons.prems show ?thesis by simp
  qed
qed

lemma insertion_step_rel:
  assumes cmp: "\<forall>b \<in> set front. cmp x b = Inr (lt x b)"
    and trans: "\<forall>a b c. \<not> lt b a \<longrightarrow> \<not> lt c b \<longrightarrow> \<not> lt c a"
    and asym: "\<forall>a b. lt a b \<longrightarrow> \<not> lt b a"
    and sorted: "sorted_wrt (\<lambda>a b. \<not> lt b a) front"
  shows "\<exists>r. insertion_step cmp front x = Inr r \<and> mset r = add_mset x (mset front)
           \<and> sorted_wrt (\<lambda>a b. \<not> lt b a) r"
proof (cases front)
  case Nil
  then show ?thesis by (simp add: insertion_step_def)
next
  case (Cons first rest)
  show ?thesis
  proof (cases "lt x first")
    case True
    have "\<not> lt c x" if "c \<in> set front" for c
    proof (cases "c = first")
      case True
      with \<open>lt x first\<close> asym show ?thesis by blast
    next
      case False
      with that Cons sorted have "\<not> lt c first" by auto
      moreover from \<open>lt x first\<close> asym have "\<not> lt first x" by blast
      ultimately show ?thesis using trans by blast
    qed
    with sorted have "sorted_wrt (\<lambda>a b. \<not> lt b a) (x # front)" by simp
    with True Cons cmp show ?thesis by (simp add: insertion_step_def)
  next
    case False
    have c: "\<forall>b \<in> set (rev front). cmp x b = Inr (lt x b)" using cmp by simp
    have s: "sorted_wrt (\<lambda>a b. \<not> lt a b) (rev front)" using sorted by (simp add: sorted_wrt_rev)
    have st: "\<exists>b \<in> set (rev front). \<not> lt x b" using False Cons by auto
    from unguarded_linear_insert_rel[of "rev front" cmp x lt, OF c trans asym s st]
    obtain r where r: "unguarded_linear_insert cmp x (rev front) = Inr r"
      "mset r = add_mset x (mset (rev front))" "sorted_wrt (\<lambda>a b. \<not> lt a b) r" by blast
    from r(3) have "sorted_wrt (\<lambda>a b. \<not> lt b a) (rev r)" by (simp add: sorted_wrt_rev)
    with False Cons cmp r(1,2) show ?thesis by (simp add: insertion_step_def)
  qed
qed

lemma insertion_sort_rel:
  assumes cmp: "\<forall>a \<in> set front \<union> set xs. \<forall>b \<in> set front \<union> set xs. cmp a b = Inr (lt a b)"
    and trans: "\<forall>a b c. \<not> lt b a \<longrightarrow> \<not> lt c b \<longrightarrow> \<not> lt c a"
    and asym: "\<forall>a b. lt a b \<longrightarrow> \<not> lt b a"
    and sorted: "sorted_wrt (\<lambda>a b. \<not> lt b a) front"
  shows "\<exists>ys. insertion_sort cmp front xs = Inr ys \<and> mset ys = mset front + mset xs
           \<and> sorted_wrt (\<lambda>a b. \<not> lt b a) ys"
  using cmp sorted
proof (induction xs arbitrary: front)
  case Nil
  then show ?case by simp
next
  case (Cons x xs)
  from Cons.prems(1) have c: "\<forall>b \<in> set front. cmp x b = Inr (lt x b)" by simp
  from insertion_step_rel[of front cmp x lt, OF c trans asym Cons.prems(2)]
  obtain r where r: "insertion_step cmp front x = Inr r" "mset r = add_mset x (mset front)"
    "sorted_wrt (\<lambda>a b. \<not> lt b a) r" by blast
  from r(2) have "set r = insert x (set front)" by (metis set_mset_add_mset_insert set_mset_mset)
  with Cons.prems(1) have "\<forall>a \<in> set r \<union> set xs. \<forall>b \<in> set r \<union> set xs. cmp a b = Inr (lt a b)"
    by simp
  from Cons.IH[OF this r(3)] r(1,2) show ?case by auto
qed

lemma std_sort_rel:
  assumes cmp: "\<forall>a \<in> set xs. \<forall>b \<in> set xs. cmp a b = Inr (lt a b)"
    and trans: "\<forall>a b c. \<not> lt b a \<longrightarrow> \<not> lt c b \<longrightarrow> \<not> lt c a"
    and asym: "\<forall>a b. lt a b \<longrightarrow> \<not> lt b a"
  shows "\<exists>ys. std_sort cmp xs = Inr ys \<and> mset ys = mset xs \<and> sorted_wrt (\<lambda>a b. \<not> lt b a) ys"
proof -
  have c: "\<forall>a \<in> set [] \<union> set xs. \<forall>b \<in> set [] \<union> set xs. cmp a b = Inr (lt a b)"
    using cmp by simp
  have s: "sorted_wrt (\<lambda>a b. \<not> lt b a) []" by simp
  from insertion_sort_rel[of "[]" xs cmp lt, OF c trans asym s] show ?thesis
    by (simp add: std_sort_def)
qed







lemma Table_pull_line:
  assumes st: "seekable (tableStream t)" "\<not> failbit (tableStream t)"
      "stream_lines fs (tableStream t) = Some (h # lines)"
    and t: "hasRows t" "colFilter t = []" "\<not> distinctT t"
    and j: "pos (tableStream t) - 1 = j" "j < length lines"
    and row: "Row_read (Row1 (schema t)) (lines ! j) = Inr row"
      "Restriction_apply lib (restriction t) row = Inr True"
  shows "Table_pull lib fs t = Inr (row, t\<lparr>tableStream := (tableStream t)\<lparr>pos := j + 2\<rparr>\<rparr>)"
proof -
  let ?st = "tableStream t"
  define st1 where "st1 = (if tellg fs ?st = Some 0 then snd (getline fs ?st) else ?st)"
  have g: "good fs ?st" using st by (simp add: good_def)
  have rem0: "remaining fs ?st = drop (pos ?st) (h # lines)" using st by (simp add: remaining_def)
  have st1: "st1 = ?st\<lparr>pos := j + 1\<rparr>"
  proof (cases "pos ?st = 0")
    case True
    with j have "j = 0" by simp
    with True g st(1) rem0 show ?thesis by (simp add: st1_def tellg_def getline_def)
  next
    case False
    with j have "pos ?st = j + 1" by simp
    with False g show ?thesis by (simp add: st1_def tellg_def)
  qed
  have rem1: "remaining fs st1 = lines ! j # drop (Suc j) lines"
    using st j(2) by (simp add: st1 remaining_def stream_lines_def Cons_nth_drop_Suc)
  have ex: "extractRow_lines lib t (columnsFound t) (lines ! j # drop (Suc j) lines)
       = Inr (row, True, 1, columnsFound t)"
    using row t by (simp add: orderAndFilterColumns_def)
  have "Table_pull lib fs t
      = Inr (row, t\<lparr>tableStream := consume fs st1 1 False, hasRows := True,
                     columnsFound := columnsFound t\<rparr>)"
    using t(1) ex rem1 unfolding Table_pull_def Let_def st1_def[symmetric] by simp
  moreover have "t\<lparr>tableStream := consume fs st1 1 False, hasRows := True,
                     columnsFound := columnsFound t\<rparr>
                 = t\<lparr>tableStream := ?st\<lparr>pos := j + 2\<rparr>\<rparr>"
    using t(1) by (simp add: st1 consume_def)
  ultimately show ?thesis by simp
qed

lemma Table_pull_end:
  assumes st: "seekable (tableStream t)" "\<not> failbit (tableStream t)"
      "stream_lines fs (tableStream t) = Some (h # lines)"
    and t: "hasRows t" "\<not> distinctT t"
    and j: "length lines \<le> pos (tableStream t) - 1"
  shows "Table_pull lib fs t
           = Inr (Row1 (schema t),
                  t\<lparr>tableStream := (tableStream t)\<lparr>pos := max 1 (pos (tableStream t)),
                                                    failbit := True\<rparr>,
                    hasRows := False\<rparr>)"
proof -
  let ?st = "tableStream t"
  define st1 where "st1 = (if tellg fs ?st = Some 0 then snd (getline fs ?st) else ?st)"
  have g: "good fs ?st" using st by (simp add: good_def)
  have rem0: "remaining fs ?st = drop (pos ?st) (h # lines)" using st by (simp add: remaining_def)
  have st1: "st1 = ?st\<lparr>pos := max 1 (pos ?st)\<rparr>"
  proof (cases "pos ?st = 0")
    case True
    with g st(1) rem0 show ?thesis by (simp add: st1_def tellg_def getline_def)
  next
    case False
    then have "max 1 (pos ?st) = pos ?st" by simp
    with False g show ?thesis by (simp add: st1_def tellg_def)
  qed
  have rem1: "remaining fs st1 = []"
    using st j by (auto simp: st1 remaining_def stream_lines_def max_def)
  have "Table_pull lib fs t
      = Inr (Row1 (schema t), t\<lparr>tableStream := consume fs st1 0 True, hasRows := False,
                     columnsFound := columnsFound t\<rparr>)"
    using t rem1 unfolding Table_pull_def Let_def st1_def[symmetric] by simp
  moreover have "t\<lparr>tableStream := consume fs st1 0 True, hasRows := False,
                     columnsFound := columnsFound t\<rparr>
                 = t\<lparr>tableStream := ?st\<lparr>pos := max 1 (pos ?st), failbit := True\<rparr>,
                     hasRows := False\<rparr>"
    by (simp add: st1 consume_def)
  ultimately show ?thesis by simp
qed


text \<open>
  The rows are sorted as both \<open>Table::orderBy\<close> and \<open>JoinedTable::orderBy\<close> sort them:
  when every two rows are comparable in every listed column, the sort returns a
  permutation that is ordered in the order of the specification.
\<close>

lemma std_sort_compareRows:
  assumes typed: "well_typed lib names rows"
  shows "\<exists>ys. std_sort (\<lambda>row1 row2. compareRows lib row1 row2 names desc) rows = Inr ys
           \<and> mset ys = mset rows \<and> ordered_by lib names desc ys"
proof -
  define K where "K r = the (row_key lib names r)" for r
  define lt where "lt a b = (if desc then K b < K a else K a < K b)" for a b
  have pair: "compareRows lib a b names desc = Inr (lt a b)
                \<and> (rows_le lib names a b \<longleftrightarrow> K a \<le> K b)"
    if "a \<in> set rows" "b \<in> set rows" for a b
  proof -
    from typed that have "\<forall>cn \<in> set names. comparable lib cn a b"
      by (simp add: well_typed_def)
    from compareRows_key[OF this, of desc] show ?thesis
      by (auto simp: K_def lt_def rows_le_def)
  qed
  have cmp: "\<forall>a \<in> set rows. \<forall>b \<in> set rows.
               (\<lambda>row1 row2. compareRows lib row1 row2 names desc) a b = Inr (lt a b)"
    using pair by simp
  have trans: "\<forall>a b c. \<not> lt b a \<longrightarrow> \<not> lt c b \<longrightarrow> \<not> lt c a"
    by (auto simp: lt_def split: if_splits)
  have asym: "\<forall>a b. lt a b \<longrightarrow> \<not> lt b a"
    by (auto simp: lt_def split: if_splits)
  from std_sort_rel[of rows "\<lambda>row1 row2. compareRows lib row1 row2 names desc" lt, OF cmp trans asym]
  obtain ys where ys: "std_sort (\<lambda>row1 row2. compareRows lib row1 row2 names desc) rows = Inr ys"
    "mset ys = mset rows" "sorted_wrt (\<lambda>a b. \<not> lt b a) ys" by blast
  from ys(2) have set: "set ys = set rows" by (metis set_mset_mset)
  have "ordered_by lib names desc ys"
    unfolding ordered_by_def
  proof (rule sorted_wrt_mono_rel[OF _ ys(3)])
    fix x y
    assume "x \<in> set ys" "y \<in> set ys" "\<not> lt y x"
    with pair[of x y] pair[of y x] set
    show "if desc then rows_le lib names y x else rows_le lib names x y"
      by (auto simp: lt_def split: if_splits)
  qed
  with ys(1,2) show ?thesis by blast
qed


text \<open>
  \<open>JoinedTable::orderBy\<close> sorts the rows of a join in the same way and writes them,
  without a header, to the stream that the later calls of \<open>operator>>\<close> read.
\<close>

lemma JoinedTable_orderBy_buffer:
  assumes names: "colNames \<noteq> []"
    and rows: "JoinedTable_drain n lib fs jt [] = Some (Inr (rows, jt1))"
    and typed: "well_typed lib (split colNames (CHR '','') False) rows"
  shows "\<exists>sorted_rows jt'.
           JoinedTable_orderBy n lib fs jt colNames desc = Some (Inr jt')
         \<and> jtableStream (members jt')
             = Some \<lparr>src = BufferSrc (map Row_write sorted_rows), pos = 0, failbit = False\<rparr>
         \<and> mset sorted_rows = mset rows
         \<and> ordered_by lib (split colNames (CHR '','') False) desc sorted_rows"
proof -
  let ?names = "split colNames (CHR '','') False"
  from std_sort_compareRows[OF typed, of desc]
  obtain ys where ys: "std_sort (\<lambda>row1 row2. compareRows lib row1 row2 ?names desc) rows = Inr ys"
    "mset ys = mset rows" and ord: "ordered_by lib ?names desc ys" by blast
  have "JoinedTable_orderBy n lib fs jt colNames desc
          = Some (Inr (with_members jt1
                  ((members jt1)
                     \<lparr>jtableStream :=
                        Some \<lparr>src = BufferSrc (map Row_write ys), pos = 0, failbit = False\<rparr>,
                      jhasRows := True\<rparr>)))"
    using names rows ys(1) by (simp add: JoinedTable_orderBy_def Let_def bindF_def)
  with ys(2) ord show ?thesis by (auto simp: with_members_def)
qed



lemma people_orderBy:
  "orderBy integer_lib people_fs (Table_new people_fs ''p'' people_schema) ''grp,name'' False
     = Inr (people_drained
              \<lparr>hasRows := True,
               tableStream :=
                 \<lparr>src = BufferSrc [Schema_toString people_schema,
                                    [''2'', ''b''], [''10'', ''a''], [''10'', ''z'']],
                  pos = 0, failbit = False\<rparr>\<rparr>)"
  "orderBy integer_lib people_fs (Table_new people_fs ''p'' people_schema) ''grp,name'' True
     = Inr (people_drained
              \<lparr>hasRows := True,
               tableStream :=
                 \<lparr>src = BufferSrc [Schema_toString people_schema,
                                    [''10'', ''z''], [''10'', ''a''], [''2'', ''b'']],
                  pos = 0, failbit = False\<rparr>\<rparr>)"
  by code_simp+


text \<open>
  The table \<open>floats\<close> holds the values 1, 3, NaN and 2 in a \<open>float\<close> column. The value
  \<open>nan\<close> passes the type check of an insert, so a table can hold it. Every comparison
  with the NaN is false, so the sort leaves each row where it is: the rows are emitted
  in the order 1, 3, NaN, 2, in which 3 comes before 2.
\<close>

lemma insertRow_accepts_nan:
  "validateDataType integer_lib ''x'' ''float'' ''nan'' = Inr ()
   \<and> fst (insertRow integer_lib floats_empty_fs (Table_new floats_empty_fs ''f'' floats_schema)
            \<lparr>columns = [Column2 ''nan'' (hd floats_schema)], rschema = []\<rparr>) = None
   \<and> snd (snd (insertRow integer_lib floats_empty_fs
                  (Table_new floats_empty_fs ''f'' floats_schema)
                  \<lparr>columns = [Column2 ''nan'' (hd floats_schema)], rschema = []\<rparr>))
       = [(''./tables/f.table'', [Schema_toString floats_schema, [''nan'']])]"
  by (intro conjI; code_simp)


subsection \<open>A join without a condition\<close>

text \<open>Reading a line that is not longer than the schema gives a row with the values of the line.\<close>

lemma read_columns_ok:
  "length l \<le> length sch \<Longrightarrow>
   \<exists>cs. read_columns l sch = Inr cs \<and> map colValue cs = l"
proof (induction l sch rule: read_columns.induct)
  case (1 ms) then show ?case by simp
next
  case (2 v vs) then show ?case by simp
next
  case (3 v vs m ms)
  then show ?case by (auto simp: Column2_def)
qed

lemma Row_read_ok:
  assumes "length l \<le> length sch"
  shows "\<exists>row. Row_read (Row1 sch) l = Inr row \<and> Row_write row = l"
proof -
  from read_columns_ok[OF assms] obtain cs where "read_columns l sch = Inr cs" "map colValue cs = l"
    by blast
  then show ?thesis by (simp add: Row_read_def Row1_def Row_write_def)
qed

lemma plain_table_pos:
  "plain_table fs t h rows \<Longrightarrow>
   plain_table fs (t\<lparr>tableStream := (tableStream t)\<lparr>pos := k\<rparr>\<rparr>) h rows"
  by (simp add: plain_table_def tablePath_def)

lemma Table_pull_plain:
  assumes pl: "plain_table fs t h rows" and j: "pos (tableStream t) - 1 = j" and lt: "j < length rows"
  shows "\<exists>row. Table_pull lib fs t = Inr (row, t\<lparr>tableStream := (tableStream t)\<lparr>pos := j + 2\<rparr>\<rparr>)
           \<and> Row_write row = rows ! j"
proof -
  from pl lt have len: "length (rows ! j) \<le> length (schema t)" by (simp add: plain_table_def)
  from Row_read_ok[OF len] obtain row where r: "Row_read (Row1 (schema t)) (rows ! j) = Inr row"
    and w: "Row_write row = rows ! j" by blast
  from pl have st: "seekable (tableStream t)" "\<not> failbit (tableStream t)"
    "stream_lines fs (tableStream t) = Some (h # rows)"
    and t: "hasRows t" "colFilter t = []" "\<not> distinctT t"
    and re: "Restriction_apply lib (restriction t) row = Inr True"
    by (simp_all add: plain_table_def seekable_def stream_lines_def Restriction_apply_def)
  from Table_pull_line[OF st t j lt r re] w show ?thesis by simp
qed

lemma Table_pull_plain_end:
  assumes pl: "plain_table fs t h rows" and p: "pos (tableStream t) = length rows + 1"
  shows "\<exists>t'. Table_pull lib fs t = Inr (Row1 (schema t), t') \<and> \<not> hasRows t'
           \<and> reset fs t' = t\<lparr>tableStream := (tableStream t)\<lparr>pos := 0\<rparr>\<rparr>"
proof -
  from pl have st: "seekable (tableStream t)" "\<not> failbit (tableStream t)"
    "stream_lines fs (tableStream t) = Some (h # rows)"
    and t: "hasRows t" "\<not> distinctT t"
    by (simp_all add: plain_table_def seekable_def stream_lines_def)
  from p have j: "length rows \<le> pos (tableStream t) - 1" by simp
  let ?t' = "t\<lparr>tableStream := (tableStream t)\<lparr>pos := max 1 (pos (tableStream t)),
                                                failbit := True\<rparr>,
               hasRows := False\<rparr>"
  have "reset fs ?t' = t\<lparr>tableStream := (tableStream t)\<lparr>pos := 0\<rparr>\<rparr>"
    using st t(1)
    by (simp add: reset_def clear_def seekg_def good_def stream_lines_def seekable_def)
  with Table_pull_end[OF st t j, of lib] show ?thesis by simp
qed

lemma Row_write_merge:
  "columns row \<noteq> [] \<Longrightarrow>
   \<exists>m. Row_merge row row2 = Inr m \<and> Row_write m = Row_write row @ Row_write row2
        \<and> columns m \<noteq> []"
  by (simp add: Row_merge_def Row_write_def)

lemma Row_write_Nil: "Row_write row = [] \<longleftrightarrow> columns row = []"
  by (simp add: Row_write_def)

lemma bindF_simps [simp]:
  "bindF None f = None"
  "bindF (Some (Inl e)) f = Some (Inl e)"
  "bindF (Some (Inr x)) f = f x"
  by (simp_all add: bindF_def)

text \<open>
  The pull from the build side with the reset after its end, on a plain table: it gives
  the row at the read position, or the first row when the position is the end.
\<close>

lemma build_pull_plain:
  assumes pl: "plain_table fs b h rows" and ne: "rows \<noteq> []"
    and p: "pos (tableStream b) \<le> length rows + 1"
    and j: "j = (if pos (tableStream b) - 1 < length rows then pos (tableStream b) - 1 else 0)"
  shows "\<exists>row2 b'.
           bindF (ptr_pull (Suc n) lib fs (BaseTable b)) (\<lambda>(row2, b1).
             bindF (if \<not> ptr_bool fs b1
                    then bindF (Some (ptr_reset fs b1)) (\<lambda>tp. ptr_pull (Suc n) lib fs tp)
                    else Some (Inr (row2, b1))) k)
             = k (row2, BaseTable b')
         \<and> Row_write row2 = rows ! j \<and> plain_table fs b' h rows
         \<and> pos (tableStream b') = j + 2"
proof (cases "pos (tableStream b) = length rows + 1")
  case True
  with j have j0: "j = 0" by simp
  from Table_pull_plain_end[OF pl True, of lib]
  obtain b1 where p1: "Table_pull lib fs b = Inr (Row1 (schema b), b1)" and nh: "\<not> hasRows b1"
    and rs: "reset fs b1 = b\<lparr>tableStream := (tableStream b)\<lparr>pos := 0\<rparr>\<rparr>" by blast
  let ?b0 = "b\<lparr>tableStream := (tableStream b)\<lparr>pos := 0\<rparr>\<rparr>"
  have pl0: "plain_table fs ?b0 h rows" using pl by (rule plain_table_pos)
  from ne have lt: "0 < length rows" by simp
  have "pos (tableStream ?b0) - 1 = 0" by simp
  from Table_pull_plain[OF pl0 this lt, of lib]
  obtain row where p2: "Table_pull lib fs ?b0
       = Inr (row, ?b0\<lparr>tableStream := (tableStream ?b0)\<lparr>pos := 0 + 2\<rparr>\<rparr>)"
    and w: "Row_write row = rows ! 0" by blast
  have "plain_table fs (?b0\<lparr>tableStream := (tableStream ?b0)\<lparr>pos := 0 + 2\<rparr>\<rparr>) h rows"
    using pl0 by (rule plain_table_pos)
  with p1 nh rs p2 w j0 show ?thesis
    by (intro exI[of _ row] exI[of _ "?b0\<lparr>tableStream := (tableStream ?b0)\<lparr>pos := 0 + 2\<rparr>\<rparr>"])
       (simp add: ptr_reset_def)
next
  case False
  with p have le: "pos (tableStream b) \<le> length rows" by simp
  with ne have lt: "pos (tableStream b) - 1 < length rows" by (cases "pos (tableStream b)") auto
  with j have jj: "pos (tableStream b) - 1 = j" by simp
  from lt jj have ltj: "j < length rows" by simp
  let ?b' = "b\<lparr>tableStream := (tableStream b)\<lparr>pos := j + 2\<rparr>\<rparr>"
  from Table_pull_plain[OF pl jj ltj, of lib]
  obtain row where p1: "Table_pull lib fs b = Inr (row, ?b')" and w: "Row_write row = rows ! j"
    by blast
  have pl': "plain_table fs ?b' h rows" using pl by (rule plain_table_pos)
  then have "hasRows ?b'" by (simp add: plain_table_def)
  with p1 w pl' show ?thesis
    by (intro exI[of _ row] exI[of _ ?b']) simp
qed

text \<open>
  One round of the loop body, and with it one call of \<open>extractRow\<close> and of
  \<open>operator>>\<close>, moves the invariant from \<open>i\<close> to \<open>i + 1\<close> and gives probe row \<open>i\<close>
  followed by build row \<open>i mod n\<close>.
\<close>

lemma extractRow_body_cross:
  assumes inv: "cross_inv fs ph ps bh bs i jt" and i: "i < length ps" and ne: "bs \<noteq> []"
    and nonempty: "\<forall>l \<in> set ps. l \<noteq> []"
  shows "\<exists>merged jt'.
           extractRow_body (\<lambda>tp. ptr_pull (Suc n) lib fs tp) fs jt = Some (Inr (merged, True, jt'))
         \<and> Row_write merged = ps ! i @ bs ! (i mod length bs)
         \<and> columns merged \<noteq> []
         \<and> cross_inv fs ph ps bh bs (Suc i) jt' \<and> JoinedTable_bool fs jt'"
proof -
  from inv obtain p b where jm: "joinMap (members jt) = []"
    and ns: "jtableStream (members jt) = None"
    and rest: "jrestriction (members jt) = []" "jcolFilter (members jt) = []"
      "\<not> jdistinct (members jt)"
    and pt: "probeTable jt = BaseTable p" and bt: "buildTable jt = BaseTable b"
    and plp: "plain_table fs p ph ps" and pp: "pos (tableStream p) - 1 = i"
    and plb: "plain_table fs b bh bs" and pb: "pos (tableStream b) \<le> length bs + 1"
    and jb: "i mod length bs = (if pos (tableStream b) - 1 < length bs
         then pos (tableStream b) - 1 else 0)"
    by (auto simp: cross_inv_def)
  let ?p1 = "p\<lparr>tableStream := (tableStream p)\<lparr>pos := i + 2\<rparr>\<rparr>"
  from Table_pull_plain[OF plp pp i, of lib]
  obtain row where pull: "Table_pull lib fs p = Inr (row, ?p1)"
    and w: "Row_write row = ps ! i" by blast
  have plp1: "plain_table fs ?p1 ph ps" using plp by (rule plain_table_pos)
  then have h1: "hasRows ?p1" by (simp add: plain_table_def)
  from nonempty i have "ps ! i \<noteq> []" by simp
  with w have cr: "columns row \<noteq> []" by (simp add: Row_write_Nil[symmetric])
  define k where "k = (\<lambda>(row2', b2).
              bindF (Some (Row_merge row row2')) (\<lambda>merged.
                Some (Inr (merged, True, JoinedTable (members jt) b2 (BaseTable ?p1)))))"
  from build_pull_plain[OF plb ne pb jb, of n lib k]
  obtain row2 b' where nb: "bindF (ptr_pull (Suc n) lib fs (BaseTable b)) (\<lambda>(row2, b1).
             bindF (if \<not> ptr_bool fs b1
                    then bindF (Some (ptr_reset fs b1)) (\<lambda>tp. ptr_pull (Suc n) lib fs tp)
                    else Some (Inr (row2, b1))) k)
             = k (row2, BaseTable b')"
    and w2: "Row_write row2 = bs ! (i mod length bs)" and plb1: "plain_table fs b' bh bs"
    and posb: "pos (tableStream b') = i mod length bs + 2" by blast
  from Row_write_merge[OF cr, of row2]
  obtain m where m: "Row_merge row row2 = Inr m" "Row_write m = Row_write row @ Row_write row2"
    "columns m \<noteq> []" by blast
  let ?jt' = "JoinedTable (members jt) (BaseTable b') (BaseTable ?p1)"
  have body: "extractRow_body (\<lambda>tp. ptr_pull (Suc n) lib fs tp) fs jt = Some (Inr (m, True, ?jt'))"
    using ns pt bt pull h1 jm nb m(1) by (simp add: extractRow_body_def k_def)
  from ne have n0: "0 < length bs" by simp
  then have lt: "i mod length bs < length bs" by simp
  have "cross_inv fs ph ps bh bs (Suc i) ?jt'"
    using jm ns rest plp1 plb1 posb lt by (auto simp: cross_inv_def mod_Suc)
  moreover from plb1 h1 have "JoinedTable_bool fs ?jt'" by (simp add: plain_table_def)
  ultimately show ?thesis using body m w w2 by simp
qed

lemma JoinedTable_pull_cross:
  assumes inv: "cross_inv fs ph ps bh bs i jt" and i: "i < length ps" and ne: "bs \<noteq> []"
    and nonempty: "\<forall>l \<in> set ps. l \<noteq> []" and fuel: "3 \<le> n"
  shows "\<exists>row jt'.
           JoinedTable_pull n lib fs jt = Some (Inr (row, jt'))
         \<and> Row_write row = ps ! i @ bs ! (i mod length bs)
         \<and> cross_inv fs ph ps bh bs (Suc i) jt' \<and> JoinedTable_bool fs jt'"
proof -
  from fuel obtain k where n: "n = Suc (Suc (Suc k))"
    by (metis Suc_le_D numeral_3_eq_3 le_Suc_ex add_Suc)
  from extractRow_body_cross[OF inv i ne nonempty, of k lib]
  obtain merged jt' where body:
      "extractRow_body (\<lambda>tp. ptr_pull (Suc k) lib fs tp) fs jt = Some (Inr (merged, True, jt'))"
    and w: "Row_write merged = ps ! i @ bs ! (i mod length bs)"
    and c: "columns merged \<noteq> []"
    and inv': "cross_inv fs ph ps bh bs (Suc i) jt'" and b: "JoinedTable_bool fs jt'" by blast
  from inv' have r: "jrestriction (members jt') = []" "jcolFilter (members jt') = []"
    "\<not> jdistinct (members jt')" by (simp_all add: cross_inv_def)
  have "JoinedTable_extractRow (Suc (Suc k)) lib fs jt = Some (Inr (merged, jt'))"
    using body r(1) by (simp add: Restriction_apply_def)
  then have "JoinedTable_pull n lib fs jt = Some (Inr (merged, jt'))"
    using c r(2,3) by (simp add: n orderAndFilterColumns_def)
  with w inv' b show ?thesis by blast
qed


lemma Table_new_plain:
  assumes t: "t = Table_new fs n sch"
    and f: "map_of fs (tablePath t) = Some (h # rows)"
    and len: "\<forall>l \<in> set rows. length l \<le> length (schema t)"
  shows "plain_table fs t h rows \<and> pos (tableStream t) = 0"
proof -
  have path: "tablePath t = TABLE_DIRECTORY @ n @ TABLE_EXTENSION"
    by (simp add: t Table_new_def countRows_def reset_def tablePath_def Let_def)
  with f have f': "map_of fs (TABLE_DIRECTORY @ n @ TABLE_EXTENSION) = Some (h # rows)" by simp
  have sch: "schema t = sch"
    by (simp add: t Table_new_def countRows_def reset_def Let_def)
  from f' len sch show ?thesis
    unfolding plain_table_def path
    by (simp add: t Table_new_def countRows_def reset_def Let_def seekg_def clear_def good_def
        stream_lines_def seekable_def)
qed

lemma JoinedTable_new_cross:
  assumes jt: "JoinedTable_new n0 lib fs (BaseTable (Table_new fs name1 schema1))
                 (BaseTable (Table_new fs name2 schema2)) [] = Some (Inr jt)"
    and probe: "probeTable jt = BaseTable p" "map_of fs (tablePath p) = Some (ph # ps)"
    and build: "buildTable jt = BaseTable b" "map_of fs (tablePath b) = Some (bh # bs)"
    and ne: "bs \<noteq> []"
    and prows: "\<forall>l \<in> set ps. length l \<le> length (schema p)"
    and brows: "\<forall>l \<in> set bs. length l \<le> length (schema b)"
  shows "cross_inv fs ph ps bh bs 0 jt"
proof -
  from jt have m: "joinMap (members jt) = []" "jtableStream (members jt) = None"
    "jrestriction (members jt) = []" "jcolFilter (members jt) = []" "\<not> jdistinct (members jt)"
    by (auto simp: JoinedTable_new_def default_members_def Let_def split: prod.splits)
  from jt have "(buildTable jt = BaseTable (Table_new fs name2 schema2)
                 \<and> probeTable jt = BaseTable (Table_new fs name1 schema1))
              \<or> (buildTable jt = BaseTable (Table_new fs name1 schema1)
                 \<and> probeTable jt = BaseTable (Table_new fs name2 schema2))"
    by (auto simp: JoinedTable_new_def assignBuildAndProbeTables_def Let_def
        split: prod.splits if_splits)
  with probe(1) build(1) obtain bn bsch pn psch where b: "b = Table_new fs bn bsch"
    and p: "p = Table_new fs pn psch" by auto
  from Table_new_plain[OF p probe(2) prows] have pp: "plain_table fs p ph ps"
    "pos (tableStream p) = 0" by simp_all
  from Table_new_plain[OF b build(2) brows] have pb: "plain_table fs b bh bs"
    "pos (tableStream b) = 0" by simp_all
  from ne have "0 < length bs" by simp
  with m pp pb probe(1) build(1) show ?thesis by (simp add: cross_inv_def)
qed

text \<open>
  After the last probe row the pull reports the end, and the loop
  \<open>while (*this >> row)\<close> has collected every probe row with its build row.
\<close>

lemma JoinedTable_pull_cross_end:
  assumes inv: "cross_inv fs ph ps bh bs (length ps) jt" and fuel: "3 \<le> n"
  shows "\<exists>row jt'. JoinedTable_pull n lib fs jt = Some (Inr (row, jt'))
           \<and> \<not> JoinedTable_bool fs jt'"
proof -
  from fuel obtain k where n: "n = Suc (Suc (Suc k))"
    by (metis Suc_le_D numeral_3_eq_3 le_Suc_ex add_Suc)
  from inv obtain p b where ns: "jtableStream (members jt) = None"
    and rest: "jcolFilter (members jt) = []" "\<not> jdistinct (members jt)"
    and pt: "probeTable jt = BaseTable p" and bt: "buildTable jt = BaseTable b"
    and plp: "plain_table fs p ph ps" and pp: "pos (tableStream p) - 1 = length ps"
    by (auto simp: cross_inv_def)
  from plp have st: "seekable (tableStream p)" "\<not> failbit (tableStream p)"
    "stream_lines fs (tableStream p) = Some (ph # ps)"
    and t: "hasRows p" "\<not> distinctT p"
    by (simp_all add: plain_table_def seekable_def stream_lines_def)
  from pp have j: "length ps \<le> pos (tableStream p) - 1" by simp
  let ?p1 = "p\<lparr>tableStream := (tableStream p)\<lparr>pos := max 1 (pos (tableStream p)),
                                                failbit := True\<rparr>,
               hasRows := False\<rparr>"
  note pull = Table_pull_end[OF st t j, of lib]
  have body: "extractRow_body (\<lambda>tp. ptr_pull (Suc k) lib fs tp) fs jt
                = Some (Inr (Row1 (schema p), False, with_probe jt (BaseTable ?p1)))"
    using ns pt pull by (simp add: extractRow_body_def)
  have "JoinedTable_pull n lib fs jt = Some (Inr (Row1 (schema p), with_probe jt (BaseTable ?p1)))"
    using body rest by (simp add: n Row1_def with_probe_def)
  moreover have "\<not> JoinedTable_bool fs (with_probe jt (BaseTable ?p1))"
    using ns by (simp add: with_probe_def)
  ultimately show ?thesis by blast
qed

lemma JoinedTable_drain_cross:
  assumes ne: "bs \<noteq> []" and nonempty: "\<forall>l \<in> set ps. l \<noteq> []"
  shows "cross_inv fs ph ps bh bs s jt \<Longrightarrow> s \<le> length ps \<Longrightarrow> length ps - s + 4 \<le> n \<Longrightarrow>
         \<exists>rows jt'. JoinedTable_drain n lib fs jt acc = Some (Inr (acc @ rows, jt'))
           \<and> map Row_write rows = map (\<lambda>i. ps ! i @ bs ! (i mod length bs)) [s..<length ps]"
proof (induction "length ps - s" arbitrary: s jt n acc)
  case 0
  then have s: "s = length ps" by simp
  from "0.prems"(3) obtain m where n: "n = Suc m" and m: "3 \<le> m" by (cases n) auto
  from JoinedTable_pull_cross_end[OF "0.prems"(1)[unfolded s] m, of lib]
  show ?case by (auto simp: n s)
next
  case (Suc d)
  then have s: "s < length ps" by simp
  from Suc.prems(3) obtain m where n: "n = Suc m" and m: "length ps - s + 3 \<le> m"
    by (cases n) auto
  then have m3: "3 \<le> m" by simp
  from JoinedTable_pull_cross[OF Suc.prems(1) s ne nonempty m3, of lib]
  obtain row jt1 where b: "JoinedTable_pull m lib fs jt = Some (Inr (row, jt1))"
    and w: "Row_write row = ps ! s @ bs ! (s mod length bs)"
    and inv1: "cross_inv fs ph ps bh bs (Suc s) jt1" and bl: "JoinedTable_bool fs jt1" by blast
  have d: "d = length ps - Suc s" using Suc.hyps(2) by simp
  have le: "Suc s \<le> length ps" using s by simp
  have fu: "length ps - Suc s + 4 \<le> m" using m s by simp
  from Suc.hyps(1)[OF d inv1 le fu, of "acc @ [row]"]
  obtain rows jt' where r: "JoinedTable_drain m lib fs jt1 (acc @ [row])
         = Some (Inr ((acc @ [row]) @ rows, jt'))"
    and ws: "map Row_write rows = map (\<lambda>i. ps ! i @ bs ! (i mod length bs)) [Suc s..<length ps]"
    by blast
  have "[s..<length ps] = s # [Suc s..<length ps]" using s by (simp add: upt_rec)
  with b bl r w ws show ?case
    by (intro exI[of _ "row # rows"] exI[of _ jt']) (simp add: n)
qed

lemma kth_rows:
  "map (\<lambda>i. kth ps i @ kth bs ((i - 1) mod length bs + 1)) [1..<Suc k]
     = map (\<lambda>i. ps ! i @ bs ! (i mod length bs)) [0..<k]"
proof -
  have "[1..<Suc k] = map Suc [0..<k]" by (simp add: map_Suc_upt)
  then show ?thesis by (simp add: kth_def comp_def)
qed


text \<open>
  With enough fuel the loop \<open>while (*this >> row)\<close> ends and has collected exactly these
  rows, one for every probe row.
\<close>

lemma cross_join_drain:
  assumes jt: "JoinedTable_new n0 lib fs (BaseTable (Table_new fs name1 schema1))
                 (BaseTable (Table_new fs name2 schema2)) [] = Some (Inr jt)"
    and probe: "probeTable jt = BaseTable p" "map_of fs (tablePath p) = Some (ph # ps)"
    and build: "buildTable jt = BaseTable b" "map_of fs (tablePath b) = Some (bh # bs)"
    and ne: "bs \<noteq> []"
    and prows: "\<forall>l \<in> set ps. l \<noteq> [] \<and> length l \<le> length (schema p)"
    and brows: "\<forall>l \<in> set bs. length l \<le> length (schema b)"
    and fuel: "length ps + 4 \<le> n"
  shows "\<exists>rows jt'.
           JoinedTable_drain n lib fs jt [] = Some (Inr (rows, jt'))
         \<and> map Row_write rows
             = map (\<lambda>i. kth ps i @ kth bs ((i - 1) mod length bs + 1)) [1..<Suc (length ps)]"
proof -
  from prows have plen: "\<forall>l \<in> set ps. length l \<le> length (schema p)"
    and nonempty: "\<forall>l \<in> set ps. l \<noteq> []" by simp_all
  note inv0 = JoinedTable_new_cross[OF jt probe build ne plen brows]
  from fuel have f: "length ps - 0 + 4 \<le> n" by simp
  from JoinedTable_drain_cross[OF ne nonempty inv0 _ f, of lib "[]"]
  obtain rows jt' where "JoinedTable_drain n lib fs jt [] = Some (Inr (rows, jt'))"
    "map Row_write rows = map (\<lambda>i. ps ! i @ bs ! (i mod length bs)) [0..<length ps]"
    by auto
  then show ?thesis unfolding kth_rows by blast
qed


lemma join_example_rows:
  "map_option (map_sum id (map Row_write \<circ> fst)) (JoinedTable_drain 7 integer_lib join_fs join_example [])
     = Some (Inr [[''2'', ''b'', ''red''], [''10'', ''z'', ''blue''], [''10'', ''a'', ''red'']])"
  by code_simp



text \<open>
  A join as the build side of a join, as in \<open>SELECT * FROM a , b , c ;\<close> with one row in
  \<open>a\<close> and \<open>b\<close> and two in \<open>c\<close>. The first call returns a row. In the second the build
  side is at its end and \<open>buildTable->reset()\<close> runs \<open>Table::reset\<close>, which is not
  virtual, on the joined table, whose stream pointer is null: the build side is not
  started again.
\<close>

lemma nested_join_reset_undefined:
  "JoinedTable_new 0 integer_lib nest_fs (BaseTable (Table_new nest_fs ''a'' (one_schema ''a'')))
     (BaseTable (Table_new nest_fs ''b'' (one_schema ''b''))) [] = Some (Inr nest_ab)
   \<and> JoinedTable_new 0 integer_lib nest_fs (JoinTable nest_ab)
       (BaseTable (Table_new nest_fs ''c'' (one_schema ''c''))) [] = Some (Inr nest_abc)
   \<and> map_option (map_sum id (Row_write \<circ> fst)) (JoinedTable_pull 6 integer_lib nest_fs nest_abc)
       = Some (Inr [''c1'', ''b1'', ''a1''])
   \<and> JoinedTable_pulls 6 integer_lib nest_fs 2 nest_abc = Some (Inl undefined_behaviour)"
  by (intro conjI; code_simp)

text \<open>
  A remote table as the build side: the socket cannot seek, so after the reset the
  stream has failed and the second probe row is returned with no build row at all.
\<close>

lemma remote_build_not_rewound:
  "JoinedTable_new 0 integer_lib []
     (BaseTable (remote_table ''http://example.org/r.txt'' [[''r1'']]))
     (BaseTable (remote_table ''http://example.org/s.txt'' [[''s1''], [''s2'']])) []
     = Some (Inr remote_join)
   \<and> map_option (map_sum id (map Row_write \<circ> fst))
        (JoinedTable_pulls 3 integer_lib [] 2 remote_join)
       = Some (Inr [[''s1'', ''r1''], [''s2'']])"
  by (intro conjI; code_simp)

end
